theory Spec2Isabelle
  imports Main
begin

section \<open>Values, errors and responses\<close>

text \<open>
  The backend of the blogging site is one Express application (\<^verbatim>\<open>api/index.js\<close>) over two
  Mongoose models (\<^verbatim>\<open>models/User.js\<close>, \<^verbatim>\<open>models/Post.js\<close>). Each route handler is
  embedded as a function from the request data and the state of the stores to an outcome and
  the state afterwards. Identifiers and timestamps are natural numbers: an ObjectId is opaque
  and assigned by the store, a Date counts milliseconds.
\<close>

type_synonym ObjectId = nat
type_synonym Date = nat

datatype json =
    JNull
  | JString string
  | JNumber nat
  | JObjectId ObjectId
  | JDate Date
  | JArray "json list"
  | JObject "(string \<times> json) list"


datatype mvalue = Str string | Num nat | Ref ObjectId

text \<open>
  What a handler can throw. \<open>ReferenceError x\<close>: the identifier \<open>x\<close> has no binding;
  \<open>TypeError\<close>: a property read or a destructuring of \<open>null\<close> or \<open>undefined\<close>;
  \<open>JsonWebTokenError\<close>: \<^verbatim>\<open>jwt.verify\<close> rejects the token; \<open>ENOENT\<close> and
  \<open>ENAMETOOLONG\<close>: \<^verbatim>\<open>fs.renameSync\<close> finds no such file or directory, or is given a
  name longer than the file system takes; \<open>ERR_INVALID_ARG_VALUE\<close>: a path with a null
  byte; \<open>CastError\<close>: Mongoose cannot cast the given string to an ObjectId;
  \<open>ValidationError\<close> lists the (path, validator) pairs that failed in a Mongoose
  validation; \<open>DuplicateKey\<close> is the store's E11000 on a unique index.
\<close>

datatype error =
    ReferenceError string
  | TypeError string
  | JsonWebTokenError
  | ENOENT string
  | ENAMETOOLONG string
  | ERR_INVALID_ARG_VALUE string
  | CastError string
  | ValidationError "(string \<times> string) list"
  | DuplicateKey string mvalue

text \<open>
  The identity a token carries (\<^verbatim>\<open>{username, id}\<close>, to which \<^verbatim>\<open>jwt.sign\<close> adds the time
  of issue), and a token as the payload together with the key it was signed with.
  Signing and verifying are idealised: a token verifies under exactly the key that signed it.
  A request's \<^verbatim>\<open>token\<close> cookie is a \<open>jwt option\<close>, \<open>None\<close> standing for a cookie that is
  absent, empty or no token at all.
\<close>

datatype info = Info (info_username: string) (info_id: ObjectId) (iat: Date)

datatype jwt = JWT info string

definition jwt_sign :: "info \<Rightarrow> string \<Rightarrow> jwt" where
  "jwt_sign payload key = JWT payload key"

fun jwt_verify :: "jwt option \<Rightarrow> string \<Rightarrow> error + info" where
  "jwt_verify None key = Inl JsonWebTokenError"
| "jwt_verify (Some (JWT payload k)) key = (if k = key then Inr payload else Inl JsonWebTokenError)"

definition info_toJSON :: "info \<Rightarrow> json" where
  "info_toJSON i = JObject [(''username'', JString (info_username i)),
                            (''id'', JObjectId (info_id i)), (''iat'', JDate (iat i))]"

text \<open>
  \<^verbatim>\<open>res.json(x)\<close> sends \<open>Json x\<close>; \<^verbatim>\<open>res.json(e)\<close> on a caught error sends the error
  object as it is, \<open>Raw e\<close>. A handler either sends a response or throws (its promise rejects,
  when it is \<^verbatim>\<open>async\<close>) without having sent one: \<open>Fault e\<close>.
\<close>

datatype body = Json json | Raw error

record response =
  status :: nat
  cookies :: "(string \<times> jwt option) list"
  body :: body

datatype outcome = Responded response | Fault error

definition ok :: "json \<Rightarrow> outcome" where
  "ok j = Responded \<lparr>status = 200, cookies = [], body = Json j\<rparr>"

section \<open>The module scope\<close>

text \<open>
  Line 16 of \<^verbatim>\<open>index.js\<close> reads \<^verbatim>\<open>// const secret = 'Secret-Service';\<close>: the declaration is
  a comment, and no other declaration of \<^verbatim>\<open>secret\<close> exists. The handlers are written over
  the binding of \<^verbatim>\<open>secret\<close> (\<open>None\<close>: not declared), and the program is the handlers at
  \<open>secret\<close>. Reading an identifier without a binding throws a ReferenceError.
\<close>

definition secret :: "string option" where
  "secret = None"

fun read_var :: "string \<Rightarrow> string option \<Rightarrow> error + string" where
  "read_var name None = Inl (ReferenceError name)"
| "read_var name (Some v) = Inr v"

section \<open>The stores\<close>

subsection \<open>Schemas and validation\<close>

text \<open>
  A schema gives each path its type and options. Of the options the two schemas use,
  \<^verbatim>\<open>required\<close> is a validator of every type (on a String path it also refuses the empty
  string); \<^verbatim>\<open>min\<close> is a validator of Number and Date paths, and a String path has no
  validator of that name (its length validator is \<^verbatim>\<open>minlength\<close>), so the option is not
  applied there; \<^verbatim>\<open>unique\<close> is no validator: it builds a unique index in the store.
\<close>

datatype schema_type = SString | SNumber | SDate | SObjectId

record path_options =
  ptype :: schema_type
  required :: bool
  min_opt :: "nat option"
  minlength :: "nat option"
  unique :: bool

type_synonym schema = "(string \<times> path_options) list"
type_synonym fields = "(string \<times> mvalue) list"

definition UserSchema :: schema where
  "UserSchema =
     [(''username'', \<lparr>ptype = SString, required = True, min_opt = Some 4, minlength = None, unique = True\<rparr>),
      (''password'', \<lparr>ptype = SString, required = True, min_opt = None, minlength = None, unique = False\<rparr>)]"

fun check_required :: "mvalue option \<Rightarrow> bool" where
  "check_required None = False"
| "check_required (Some (Str s)) = (s \<noteq> [])"
| "check_required (Some v) = True"

fun check_min :: "schema_type \<Rightarrow> nat \<Rightarrow> mvalue option \<Rightarrow> bool" where
  "check_min SNumber m (Some (Num n)) = (m \<le> n)"
| "check_min SDate m (Some (Num n)) = (m \<le> n)"
| "check_min t m v = True"

fun check_minlength :: "schema_type \<Rightarrow> nat \<Rightarrow> mvalue option \<Rightarrow> bool" where
  "check_minlength SString m (Some (Str s)) = (m \<le> length s)"
| "check_minlength t m v = True"

definition validate_path :: "string \<Rightarrow> path_options \<Rightarrow> mvalue option \<Rightarrow> (string \<times> string) list" where
  "validate_path p opts v =
     (if required opts \<and> \<not> check_required v then [(p, ''required'')] else []) @
     (case min_opt opts of None \<Rightarrow> []
      | Some m \<Rightarrow> if check_min (ptype opts) m v then [] else [(p, ''min'')]) @
     (case minlength opts of None \<Rightarrow> []
      | Some m \<Rightarrow> if check_minlength (ptype opts) m v then [] else [(p, ''minlength'')])"

definition validate :: "schema \<Rightarrow> fields \<Rightarrow> (string \<times> string) list" where
  "validate sch doc = concat (map (\<lambda>(p, opts). validate_path p opts (map_of doc p)) sch)"

text \<open>
  The unique indexes: the first unique path of the schema at which a stored document has
  the value of the new one.
\<close>

fun duplicate_key :: "schema \<Rightarrow> fields \<Rightarrow> fields list \<Rightarrow> (string \<times> mvalue) option" where
  "duplicate_key [] doc stored = None"
| "duplicate_key ((p, opts) # sch) doc stored =
     (case map_of doc p of
        None \<Rightarrow> duplicate_key sch doc stored
      | Some v \<Rightarrow>
          if unique opts \<and> list_ex (\<lambda>d. map_of d p = Some v) stored then Some (p, v)
          else duplicate_key sch doc stored)"

subsection \<open>Users and posts\<close>

record user =
  uid :: ObjectId
  username :: string
  password :: string

text \<open>
  A post, with its \<^verbatim>\<open>author\<close> path either as stored (an ObjectId referring to a user) or
  populated (the JSON value put in its place). \<^verbatim>\<open>timestamps: true\<close> adds
  \<^verbatim>\<open>createdAt\<close> and \<^verbatim>\<open>updatedAt\<close>.
\<close>

record 'a post =
  pid :: ObjectId
  title :: string
  summary :: string
  content :: string
  cover :: string
  author :: 'a
  createdAt :: Date
  updatedAt :: Date

record state =
  users :: "user list"
  posts :: "ObjectId post list"
  files :: "string set"
  next_id :: ObjectId

definition user_fields :: "user \<Rightarrow> fields" where
  "user_fields u = [(''username'', Str (username u)), (''password'', Str (password u))]"

definition user_toJSON :: "user \<Rightarrow> json" where
  "user_toJSON u = JObject [(''username'', JString (username u)), (''password'', JString (password u)),
                            (''_id'', JObjectId (uid u)), (''__v'', JNumber 0)]"

definition User_create :: "string \<Rightarrow> string \<Rightarrow> state \<Rightarrow> error + (user \<times> state)" where
  "User_create uname pw s =
     (let doc = [(''username'', Str uname), (''password'', Str pw)] in
      case validate UserSchema doc of
        e # es \<Rightarrow> Inl (ValidationError (e # es))
      | [] \<Rightarrow>
         (case duplicate_key UserSchema doc (map user_fields (users s)) of
            Some (p, v) \<Rightarrow> Inl (DuplicateKey p v)
          | None \<Rightarrow>
              let userDoc = \<lparr>uid = next_id s, username = uname, password = pw\<rparr>
              in Inr (userDoc, s\<lparr>users := users s @ [userDoc], next_id := Suc (next_id s)\<rparr>)))"

definition User_findOne :: "string \<Rightarrow> state \<Rightarrow> user option" where
  "User_findOne uname s = find (\<lambda>u. username u = uname) (users s)"

text \<open>The Post schema has no validator and no index of its own: creating a post succeeds.\<close>

definition Post_create ::
  "Date \<Rightarrow> string \<Rightarrow> string \<Rightarrow> string \<Rightarrow> string \<Rightarrow> ObjectId \<Rightarrow> state \<Rightarrow> ObjectId post \<times> state" where
  "Post_create now t sm c cv a s =
     (let postDoc = \<lparr>pid = next_id s, title = t, summary = sm, content = c, cover = cv,
                      author = a, createdAt = now, updatedAt = now\<rparr>
      in (postDoc, s\<lparr>posts := posts s @ [postDoc], next_id := Suc (next_id s)\<rparr>))"

text \<open>
  A query by id is given a string. Mongoose casts it to an ObjectId first, and the query
  rejects with a CastError when it cannot. The code is written against Mongoose 6 (it calls
  \<^verbatim>\<open>Document.update\<close> at line 126 and passes \<^verbatim>\<open>useNewUrlParser\<close> and
  \<^verbatim>\<open>useUnifiedTopology\<close> in \<^verbatim>\<open>Db.js\<close>), whose driver takes for an ObjectId a
  string of 24 hexadecimal digits, read as the 12 bytes it writes, or a string of 12
  characters that are 12 bytes, read as those bytes; every other string is refused.
\<close>

definition hex_digit :: "char \<Rightarrow> nat option" where
  "hex_digit c =
     (let n = (of_char c :: nat) in
      if 48 \<le> n \<and> n \<le> 57 then Some (n - 48)
      else if 97 \<le> n \<and> n \<le> 102 then Some (n - 87)
      else if 65 \<le> n \<and> n \<le> 70 then Some (n - 55)
      else None)"

fun hex_value :: "string \<Rightarrow> nat \<Rightarrow> nat option" where
  "hex_value [] acc = Some acc"
| "hex_value (c # cs) acc =
     (case hex_digit c of None \<Rightarrow> None | Some d \<Rightarrow> hex_value cs (16 * acc + d))"

fun bytes_value :: "string \<Rightarrow> nat \<Rightarrow> nat" where
  "bytes_value [] acc = acc"
| "bytes_value (c # cs) acc = bytes_value cs (256 * acc + of_char c)"

definition castObjectId :: "string \<Rightarrow> ObjectId option" where
  "castObjectId str =
     (if length str = 12 \<and> list_all (\<lambda>c. (of_char c :: nat) < 128) str then Some (bytes_value str 0)
      else if length str = 24 then hex_value str 0
      else None)"

definition Post_findById :: "string \<Rightarrow> state \<Rightarrow> error + ObjectId post option" where
  "Post_findById ident s =
     (case castObjectId ident of
        None \<Rightarrow> Inl (CastError ident)
      | Some i \<Rightarrow> Inr (find (\<lambda>p. pid p = i) (posts s)))"

text \<open>
  \<^verbatim>\<open>postDoc.update({...})\<close> sets the four paths on the stored document of that id (and,
  with timestamps, \<^verbatim>\<open>updatedAt\<close>); the document held by the handler is not changed.
\<close>

definition Post_update ::
  "Date \<Rightarrow> ObjectId \<Rightarrow> string \<Rightarrow> string \<Rightarrow> string \<Rightarrow> string \<Rightarrow> state \<Rightarrow> state" where
  "Post_update now i t sm c cv s =
     s\<lparr>posts := map (\<lambda>p. if pid p = i
                           then p\<lparr>title := t, summary := sm, content := c, cover := cv, updatedAt := now\<rparr>
                           else p) (posts s)\<rparr>"

text \<open>
  A user as the store returns it, \<^verbatim>\<open>_id\<close> first. A field selection by inclusion keeps
  \<^verbatim>\<open>_id\<close> and the paths it names. \<^verbatim>\<open>populate('author', ['username'])\<close> puts, in
  place of the reference, the user of that id under the selection of \<^verbatim>\<open>username\<close>, or
  \<^verbatim>\<open>null\<close> when no user has the id.
\<close>

definition stored_user :: "user \<Rightarrow> json" where
  "stored_user u = JObject [(''_id'', JObjectId (uid u)), (''username'', JString (username u)),
                            (''password'', JString (password u)), (''__v'', JNumber 0)]"

fun select_fields :: "string list \<Rightarrow> json \<Rightarrow> json" where
  "select_fields names (JObject kvs) = JObject (filter (\<lambda>(k, v). k = ''_id'' \<or> k \<in> set names) kvs)"
| "select_fields names j = j"

definition populate :: "user list \<Rightarrow> ObjectId post \<Rightarrow> json post" where
  "populate us p =
     \<lparr>pid = pid p, title = title p, summary = summary p, content = content p, cover = cover p,
      author = (case find (\<lambda>u. uid u = author p) us of
                  None \<Rightarrow> JNull
                | Some u \<Rightarrow> select_fields [''username''] (stored_user u)),
      createdAt = createdAt p, updatedAt = updatedAt p\<rparr>"

definition post_toJSON :: "ObjectId post \<Rightarrow> json" where
  "post_toJSON p =
     JObject [(''_id'', JObjectId (pid p)), (''title'', JString (title p)),
              (''summary'', JString (summary p)), (''content'', JString (content p)),
              (''cover'', JString (cover p)), (''author'', JObjectId (author p)),
              (''createdAt'', JDate (createdAt p)), (''updatedAt'', JDate (updatedAt p)),
              (''__v'', JNumber 0)]"

definition populated_toJSON :: "json post \<Rightarrow> json" where
  "populated_toJSON p =
     JObject [(''_id'', JObjectId (pid p)), (''title'', JString (title p)),
              (''summary'', JString (summary p)), (''content'', JString (content p)),
              (''cover'', JString (cover p)), (''author'', author p),
              (''createdAt'', JDate (createdAt p)), (''updatedAt'', JDate (updatedAt p)),
              (''__v'', JNumber 0)]"

section \<open>Libraries the handlers call\<close>

text \<open>
  bcrypt is a parameter of the handlers: any hashing function and any comparison of a
  password with a hash.
\<close>

record bcrypt =
  hashSync :: "string \<Rightarrow> string \<Rightarrow> string"
  compareSync :: "string \<Rightarrow> string \<Rightarrow> bool"

text \<open>
  \<^verbatim>\<open>multer({dest: 'uploads/'}).single('file')\<close>: an upload (the file name the client
  sent, and the name multer generates for it) is stored under \<^verbatim>\<open>uploads/\<close> and described
  in \<^verbatim>\<open>req.file\<close>; without an upload \<^verbatim>\<open>req.file\<close> stays undefined. The form is read
  by busboy, which keeps of the client's file name what follows the last slash or backslash,
  and nothing of \<^verbatim>\<open>.\<close> and \<^verbatim>\<open>..\<close>: that is \<^verbatim>\<open>originalname\<close>. A file whose name
  comes out empty is not attached: multer drops it.
\<close>

record multer_file =
  originalname :: string
  path :: string

definition busboy_basename :: "string \<Rightarrow> string" where
  "busboy_basename name =
     (let base = rev (takeWhile (\<lambda>c. c \<noteq> CHR ''/'' \<and> c \<noteq> CHR 0x5C) (rev name))
      in if base = ''..'' \<or> base = ''.'' then [] else base)"

definition uploadMiddleware :: "(string \<times> string) option \<Rightarrow> state \<Rightarrow> multer_file option \<times> state" where
  "uploadMiddleware upload s =
     (case upload of
        None \<Rightarrow> (None, s)
      | Some (filename, generated) \<Rightarrow>
          if busboy_basename filename = [] then (None, s)
          else (Some \<lparr>originalname = busboy_basename filename, path = ''uploads/'' @ generated\<rparr>,
                s\<lparr>files := insert (''uploads/'' @ generated) (files s)\<rparr>))"

text \<open>
  The file system is the set of the paths of its files; its directories are those that hold
  a file. \<^verbatim>\<open>fs.renameSync(old, new)\<close> throws when a path has a null byte, when there is
  no file at \<open>old\<close>, when the directory of \<open>new\<close> does not exist, and when the name of
  \<open>new\<close> in its directory is longer than \<open>NAME_MAX\<close>, the 255 bytes of the usual file
  systems; else the file is at \<open>new\<close> afterwards.
\<close>

definition dirname :: "string \<Rightarrow> string" where
  "dirname p = rev (tl (dropWhile (\<lambda>c. c \<noteq> CHR ''/'') (rev p)))"

definition basename :: "string \<Rightarrow> string" where
  "basename p = rev (takeWhile (\<lambda>c. c \<noteq> CHR ''/'') (rev p))"

definition NAME_MAX :: nat where
  "NAME_MAX = 255"

definition renameSync :: "string \<Rightarrow> string \<Rightarrow> state \<Rightarrow> error + state" where
  "renameSync old new s =
     (if CHR 0x00 \<in> set old then Inl (ERR_INVALID_ARG_VALUE old)
      else if CHR 0x00 \<in> set new then Inl (ERR_INVALID_ARG_VALUE new)
      else if old \<notin> files s then Inl (ENOENT old)
      else if dirname new \<notin> dirname ` files s then Inl (ENOENT new)
      else if NAME_MAX < length (basename new) then Inl (ENAMETOOLONG new)
      else Inr (s\<lparr>files := insert new (files s - {old})\<rparr>))"

text \<open>\<^verbatim>\<open>str.split(c)\<close>: the pieces between the occurrences of \<open>c\<close>, never an empty list.\<close>

fun split :: "char \<Rightarrow> string \<Rightarrow> string list" where
  "split c [] = [[]]"
| "split c (x # xs) =
     (if x = c then [] # split c xs
      else (case split c xs of [] \<Rightarrow> [[x]] | p # ps \<Rightarrow> (x # p) # ps))"

text \<open>Lines 85 to 87, and 111 to 113: the path with the last piece of the original name appended.\<close>

definition newPath_of :: "multer_file \<Rightarrow> string" where
  "newPath_of f =
     (let parts = split (CHR ''.'') (originalname f);
          ext = last parts
      in path f @ ''.'' @ ext)"

section \<open>The route handlers\<close>

text \<open>\<^verbatim>\<open>app.post('/register')\<close>, lines 35 to 48.\<close>

definition post_register :: "bcrypt \<Rightarrow> string \<Rightarrow> string \<Rightarrow> string \<Rightarrow> state \<Rightarrow> outcome \<times> state" where
  "post_register B salt uname pw s =
     (case User_create uname (hashSync B pw salt) s of
        Inr (userDoc, s') \<Rightarrow> (ok (user_toJSON userDoc), s')
      | Inl e \<Rightarrow> (Responded \<lparr>status = 400, cookies = [], body = Raw e\<rparr>, s))"

text \<open>\<^verbatim>\<open>app.post('/login')\<close>, lines 50 to 66.\<close>

definition post_login ::
  "string option \<Rightarrow> bcrypt \<Rightarrow> Date \<Rightarrow> string \<Rightarrow> string \<Rightarrow> state \<Rightarrow> outcome \<times> state" where
  "post_login sec B now uname pw s =
     (case User_findOne uname s of
        None \<Rightarrow> (Fault (TypeError ''userDoc.password''), s)
      | Some userDoc \<Rightarrow>
          if compareSync B pw (password userDoc) then
            (case read_var ''secret'' sec of
               Inl e \<Rightarrow> (Fault e, s)
             | Inr key \<Rightarrow>
                 let token = jwt_sign (Info uname (uid userDoc) now) key
                 in (Responded \<lparr>status = 200, cookies = [(''token'', Some token)],
                                body = Json (JObject [(''id'', JObjectId (uid userDoc)),
                                                      (''username'', JString uname)])\<rparr>, s))
          else (Responded \<lparr>status = 400, cookies = [], body = Json (JString ''wrong credentials'')\<rparr>, s))"

text \<open>\<^verbatim>\<open>app.get('/profile')\<close>, lines 69 to 75.\<close>

definition get_profile :: "string option \<Rightarrow> jwt option \<Rightarrow> state \<Rightarrow> outcome \<times> state" where
  "get_profile sec token s =
     (case read_var ''secret'' sec of
        Inl e \<Rightarrow> (Fault e, s)
      | Inr key \<Rightarrow>
          (case jwt_verify token key of
             Inl err \<Rightarrow> (Fault err, s)
           | Inr info \<Rightarrow> (ok (info_toJSON info), s)))"

text \<open>\<^verbatim>\<open>app.post('/logout')\<close>, lines 77 to 79.\<close>

definition post_logout :: "state \<Rightarrow> outcome \<times> state" where
  "post_logout s = (Responded \<lparr>status = 200, cookies = [(''token'', None)], body = Json (JString ''ok'')\<rparr>, s)"

text \<open>
  \<^verbatim>\<open>app.post('/post')\<close>, lines 82 to 104, after the upload middleware: \<open>req_file\<close> is
  \<^verbatim>\<open>req.file\<close>. Destructuring an undefined \<^verbatim>\<open>req.file\<close> throws.
\<close>

definition post_post ::
  "string option \<Rightarrow> Date \<Rightarrow> multer_file option \<Rightarrow> jwt option \<Rightarrow> string \<Rightarrow> string \<Rightarrow> string \<Rightarrow> state
     \<Rightarrow> outcome \<times> state" where
  "post_post sec now req_file token t sm c s =
     (case req_file of
        None \<Rightarrow> (Fault (TypeError ''req.file''), s)
      | Some f \<Rightarrow>
          let newPath = newPath_of f in
          (case renameSync (path f) newPath s of
             Inl e \<Rightarrow> (Fault e, s)
           | Inr s1 \<Rightarrow>
              (case read_var ''secret'' sec of
                 Inl e \<Rightarrow> (Fault e, s1)
               | Inr key \<Rightarrow>
                  (case jwt_verify token key of
                     Inl err \<Rightarrow> (Fault err, s1)
                   | Inr info \<Rightarrow>
                       let (postDoc, s2) = Post_create now t sm c newPath (info_id info) s1
                       in (ok (post_toJSON postDoc), s2)))))"

text \<open>
  \<^verbatim>\<open>app.put('/post')\<close>, lines 107 to 136, after the upload middleware. Lines 108 to 115:
  \<^verbatim>\<open>newPath\<close> is \<^verbatim>\<open>null\<close> unless a file came with the request, which is then renamed.
\<close>

fun rename_upload :: "multer_file option \<Rightarrow> state \<Rightarrow> error + (string option \<times> state)" where
  "rename_upload None s = Inr (None, s)"
| "rename_upload (Some f) s =
     (case renameSync (path f) (newPath_of f) s of
        Inl e \<Rightarrow> Inl e
      | Inr s1 \<Rightarrow> Inr (Some (newPath_of f), s1))"

definition put_post ::
  "string option \<Rightarrow> Date \<Rightarrow> multer_file option \<Rightarrow> jwt option \<Rightarrow> string \<Rightarrow> string \<Rightarrow> string \<Rightarrow> string \<Rightarrow> state
     \<Rightarrow> outcome \<times> state" where
  "put_post sec now req_file token ident t sm c s =
     (case rename_upload req_file s of
        Inl e \<Rightarrow> (Fault e, s)
      | Inr (newPath, s1) \<Rightarrow>
          (case read_var ''secret'' sec of
             Inl e \<Rightarrow> (Fault e, s1)
           | Inr key \<Rightarrow>
              (case jwt_verify token key of
                 Inl err \<Rightarrow> (Fault err, s1)
               | Inr info \<Rightarrow>
                  (case Post_findById ident s1 of
                     Inl e \<Rightarrow> (Fault e, s1)
                   | Inr None \<Rightarrow> (Fault (TypeError ''postDoc.author''), s1)
                   | Inr (Some postDoc) \<Rightarrow>
                       if author postDoc \<noteq> info_id info
                       then (Responded \<lparr>status = 400, cookies = [],
                                        body = Json (JString ''you are not the author'')\<rparr>, s1)
                       else (ok (post_toJSON postDoc),
                             Post_update now (pid postDoc) t sm c
                               (case newPath of Some np \<Rightarrow> np | None \<Rightarrow> cover postDoc) s1)))))"

text \<open>
  \<^verbatim>\<open>app.get('/post')\<close>, lines 139 to 146: all posts, populated, sorted by \<^verbatim>\<open>createdAt\<close>
  descending, the first 20 of them.
\<close>

definition list_posts :: "state \<Rightarrow> json post list" where
  "list_posts s =
     take 20 (sort_key (\<lambda>p. - int (createdAt p)) (map (populate (users s)) (posts s)))"

definition get_post :: "state \<Rightarrow> outcome \<times> state" where
  "get_post s = (ok (JArray (map populated_toJSON (list_posts s))), s)"

text \<open>
  \<^verbatim>\<open>app.get('/post/:id')\<close>, lines 149 to 153. The id is the string of the path. When the
  query rejects, the handler's promise rejects with it; \<^verbatim>\<open>res.json(null)\<close> sends
  \<^verbatim>\<open>null\<close>.
\<close>

definition get_post_id :: "string \<Rightarrow> state \<Rightarrow> outcome \<times> state" where
  "get_post_id ident s =
     (case Post_findById ident s of
        Inl e \<Rightarrow> (Fault e, s)
      | Inr None \<Rightarrow> (ok JNull, s)
      | Inr (Some postDoc) \<Rightarrow> (ok (populated_toJSON (populate (users s) postDoc)), s))"

text \<open>The two routes with an upload: the middleware, then the handler.\<close>

definition route_post_post ::
  "string option \<Rightarrow> Date \<Rightarrow> (string \<times> string) option \<Rightarrow> jwt option \<Rightarrow> string \<Rightarrow> string \<Rightarrow> string \<Rightarrow> state
     \<Rightarrow> outcome \<times> state" where
  "route_post_post sec now upload token t sm c s =
     (let (req_file, s0) = uploadMiddleware upload s in post_post sec now req_file token t sm c s0)"

definition route_put_post ::
  "string option \<Rightarrow> Date \<Rightarrow> (string \<times> string) option \<Rightarrow> jwt option \<Rightarrow> string \<Rightarrow> string \<Rightarrow> string \<Rightarrow> string
     \<Rightarrow> state \<Rightarrow> outcome \<times> state" where
  "route_put_post sec now upload token ident t sm c s =
     (let (req_file, s0) = uploadMiddleware upload s in put_post sec now req_file token ident t sm c s0)"

section \<open>The application\<close>

text \<open>
  A request names its route and carries, beside the data the client sends, what the
  environment supplies while it is handled: the salt of \<^verbatim>\<open>bcrypt.genSaltSync\<close>, the
  time, the name multer generates for an upload. \<open>Register salt username password\<close>;
  \<open>Login now username password\<close>; \<open>Profile token\<close>;
  \<open>CreatePost now upload token title summary content\<close> and
  \<open>UpdatePost now upload token id title summary content\<close>, where an upload is the
  file name the client sent and the name generated for it; \<open>GetPost id\<close>.
  The application is the handlers of the eight routes at the module's \<open>secret\<close>; serving
  a sequence of requests threads the state.
\<close>

datatype request =
    Register string string string
  | Login Date string string
  | Profile "jwt option"
  | Logout
  | CreatePost Date "(string \<times> string) option" "jwt option" string string string
  | UpdatePost Date "(string \<times> string) option" "jwt option" string string string string
  | ListPosts
  | GetPost string

fun app :: "bcrypt \<Rightarrow> request \<Rightarrow> state \<Rightarrow> outcome \<times> state" where
  "app B (Register salt uname pw) s = post_register B salt uname pw s"
| "app B (Login now uname pw) s = post_login secret B now uname pw s"
| "app B (Profile token) s = get_profile secret token s"
| "app B Logout s = post_logout s"
| "app B (CreatePost now upload token t sm c) s = route_post_post secret now upload token t sm c s"
| "app B (UpdatePost now upload token ident t sm c) s = route_put_post secret now upload token ident t sm c s"
| "app B ListPosts s = get_post s"
| "app B (GetPost ident) s = get_post_id ident s"

fun serve :: "bcrypt \<Rightarrow> request list \<Rightarrow> state \<Rightarrow> state" where
  "serve B [] s = s"
| "serve B (r # rs) s = serve B rs (snd (app B r s))"

section \<open>Facts about the stores\<close>

lemma validate_UserSchema:
  "validate UserSchema [(''username'', Str u), (''password'', Str p)] =
     (if u = [] then [(''username'', ''required'')] else []) @
     (if p = [] then [(''password'', ''required'')] else [])"
  by (simp add: validate_def UserSchema_def validate_path_def)

lemma duplicate_key_UserSchema:
  "duplicate_key UserSchema [(''username'', Str u), (''password'', Str p)] (map user_fields us) =
     (if u \<in> set (map username us) then Some (''username'', Str u) else None)"
  by (auto simp add: UserSchema_def user_fields_def list_ex_iff)

text \<open>
  What creating a user comes to: the two \<^verbatim>\<open>required\<close> validators, then the unique index
  on \<^verbatim>\<open>username\<close>, then the insertion. The length of the username plays no part.
\<close>

lemma User_create_cases:
  "User_create u p s =
     (if u = [] \<or> p = [] then
        Inl (ValidationError ((if u = [] then [(''username'', ''required'')] else []) @
                              (if p = [] then [(''password'', ''required'')] else [])))
      else if u \<in> set (map username (users s)) then Inl (DuplicateKey ''username'' (Str u))
      else Inr (\<lparr>uid = next_id s, username = u, password = p\<rparr>,
                s\<lparr>users := users s @ [\<lparr>uid = next_id s, username = u, password = p\<rparr>],
                  next_id := Suc (next_id s)\<rparr>))"
  unfolding User_create_def Let_def validate_UserSchema duplicate_key_UserSchema
  by (simp split: list.splits)

lemma User_create_stored:
  "uname \<in> set (map username (users s)) \<Longrightarrow> \<exists>e. User_create uname p s = Inl e"
  by (simp add: User_create_cases)

lemma post_register_users:
  "users (snd (post_register B salt uname pw s)) = users s \<or>
   (uname \<notin> set (map username (users s)) \<and>
    users (snd (post_register B salt uname pw s)) =
      users s @ [\<lparr>uid = next_id s, username = uname, password = hashSync B pw salt\<rparr>])"
  by (simp add: post_register_def User_create_cases)

lemma post_register_distinct:
  "distinct (map username (users s)) \<Longrightarrow>
   distinct (map username (users (snd (post_register B salt uname pw s))))"
  using post_register_users [of B salt uname pw s] by auto

text \<open>No other handler touches the users.\<close>

lemma uploadMiddleware_users: "users (snd (uploadMiddleware upload s)) = users s"
  by (simp add: uploadMiddleware_def split: option.splits prod.splits if_splits)

lemma post_login_state: "snd (post_login sec B now uname pw s) = s"
  by (simp add: post_login_def Let_def split: option.splits sum.splits)

lemma get_profile_state: "snd (get_profile sec token s) = s"
  by (simp add: get_profile_def split: sum.splits)

lemma renameSync_users: "renameSync old new s = Inr s1 \<Longrightarrow> users s1 = users s"
  by (auto simp add: renameSync_def split: if_splits)

lemma rename_upload_users: "rename_upload req_file s = Inr (np, s1) \<Longrightarrow> users s1 = users s"
  by (cases req_file) (auto split: sum.splits dest: renameSync_users)

lemma post_post_users: "users (snd (post_post sec now req_file token t sm c s)) = users s"
  by (auto simp add: post_post_def Let_def Post_create_def
      split: option.splits sum.splits prod.splits dest: renameSync_users)

lemma put_post_users: "users (snd (put_post sec now req_file token ident t sm c s)) = users s"
  by (auto simp add: put_post_def Post_update_def
      split: option.splits sum.splits prod.splits if_splits dest: rename_upload_users)

lemma get_post_id_state: "snd (get_post_id ident s) = s"
  by (simp add: get_post_id_def split: sum.splits option.splits)

lemma app_distinct:
  "distinct (map username (users s)) \<Longrightarrow> distinct (map username (users (snd (app B r s))))"
proof (cases r)
  case (Register salt uname pw)
  then show "distinct (map username (users s)) \<Longrightarrow> ?thesis"
    by (simp add: post_register_distinct)
next
  case (CreatePost now upload token t sm c)
  then show "distinct (map username (users s)) \<Longrightarrow> ?thesis"
    using uploadMiddleware_users [of upload s]
    by (simp add: route_post_post_def post_post_users case_prod_beta)
next
  case (UpdatePost now upload token ident t sm c)
  then show "distinct (map username (users s)) \<Longrightarrow> ?thesis"
    using uploadMiddleware_users [of upload s]
    by (simp add: route_put_post_def put_post_users case_prod_beta)
qed (simp_all add: post_login_state get_profile_state post_logout_def get_post_def get_post_id_state)

lemma serve_distinct:
  "distinct (map username (users s)) \<Longrightarrow> distinct (map username (users (serve B rs s)))"
  by (induction rs arbitrary: s) (simp_all add: app_distinct)

text \<open>
  The program stores no post and changes none: the two handlers that would are stopped at the
  read of \<open>secret\<close>.
\<close>

lemma renameSync_posts: "renameSync old new s = Inr s1 \<Longrightarrow> posts s1 = posts s"
  by (auto simp add: renameSync_def split: if_splits)

lemma rename_upload_posts: "rename_upload req_file s = Inr (np, s1) \<Longrightarrow> posts s1 = posts s"
  by (cases req_file) (auto split: sum.splits dest: renameSync_posts)







lemma distinct_map_filter_one:
  "distinct (map f xs) \<Longrightarrow> k \<in> set (map f xs) \<Longrightarrow> length (filter (\<lambda>x. f x = k) xs) = 1"
proof (induction xs)
  case Nil
  then show ?case by simp
next
  case (Cons x xs)
  show ?case
  proof (cases "f x = k")
    case True
    have "\<And>y. y \<in> set xs \<Longrightarrow> f y \<noteq> k"
      using Cons.prems(1) True by (force simp add: image_iff)
    then have "filter (\<lambda>y. f y = k) xs = []"
      by (simp add: filter_empty_conv)
    with True show ?thesis by simp
  next
    case False
    with Cons show ?thesis by simp
  qed
qed

section \<open>Login with a wrong password\<close>

text \<open>
  Claim C5. A login whose username is that of a stored user and whose password does not
  compare equal to the stored hash is answered with status 400 and the body
  \<^verbatim>\<open>"wrong credentials"\<close>; the response sets no cookie, and the stores are as before.
\<close>

theorem login_wrong_password:
  assumes "User_findOne uname s = Some userDoc"
    and "\<not> compareSync B pw (password userDoc)"
  shows "post_login secret B now uname pw s =
           (Responded \<lparr>status = 400, cookies = [], body = Json (JString ''wrong credentials'')\<rparr>, s)"
  using assms by (simp add: post_login_def)

theorem login_wrong_password_witness:
  "User_findOne ''alice''
      \<lparr>users = [\<lparr>uid = 0, username = ''alice'', password = ''terces''\<rparr>], posts = [], files = {}, next_id = 1\<rparr>
     = Some \<lparr>uid = 0, username = ''alice'', password = ''terces''\<rparr>
   \<and> \<not> compareSync \<lparr>hashSync = (\<lambda>pw salt. rev pw), compareSync = (\<lambda>pw h. rev pw = h)\<rparr> ''guess''
          (password \<lparr>uid = 0, username = ''alice'', password = ''terces''\<rparr>)
   \<and> post_login secret \<lparr>hashSync = (\<lambda>pw salt. rev pw), compareSync = (\<lambda>pw h. rev pw = h)\<rparr> 7 ''alice'' ''guess''
        \<lparr>users = [\<lparr>uid = 0, username = ''alice'', password = ''terces''\<rparr>], posts = [], files = {}, next_id = 1\<rparr>
     = (Responded \<lparr>status = 400, cookies = [], body = Json (JString ''wrong credentials'')\<rparr>,
        \<lparr>users = [\<lparr>uid = 0, username = ''alice'', password = ''terces''\<rparr>], posts = [], files = {}, next_id = 1\<rparr>)"
proof -
  have h1: "User_findOne ''alice''
      \<lparr>users = [\<lparr>uid = 0, username = ''alice'', password = ''terces''\<rparr>], posts = [], files = {}, next_id = 1\<rparr>
     = Some \<lparr>uid = 0, username = ''alice'', password = ''terces''\<rparr>"
    by (simp add: User_findOne_def)
  have h2: "\<not> compareSync \<lparr>hashSync = (\<lambda>pw salt. rev pw), compareSync = (\<lambda>pw h. rev pw = h)\<rparr> ''guess''
          (password \<lparr>uid = 0, username = ''alice'', password = ''terces''\<rparr>)"
    by simp
  show ?thesis
    using h1 h2 login_wrong_password [OF h1 h2, of 7] by simp
qed

section \<open>A post that is not there\<close>

lemma hex_value_Some_iff:
  "(\<exists>v. hex_value cs acc = Some v) \<longleftrightarrow> list_all (\<lambda>c. hex_digit c \<noteq> None) cs"
  by (induction cs arbitrary: acc) (auto split: option.splits)

text \<open>The strings that are ObjectIds.\<close>

lemma castObjectId_Some_iff:
  "(\<exists>i. castObjectId str = Some i) \<longleftrightarrow>
     (length str = 24 \<and> list_all (\<lambda>c. hex_digit c \<noteq> None) str) \<or>
     (length str = 12 \<and> list_all (\<lambda>c. (of_char c :: nat) < 128) str)"
  using hex_value_Some_iff [of str 0] by (auto simp add: castObjectId_def)

text \<open>A string that is no ObjectId: the query rejects, and the handler with it.\<close>

lemma get_post_id_malformed:
  "castObjectId ident = None \<Longrightarrow> get_post_id ident s = (Fault (CastError ident), s)"
  by (simp add: get_post_id_def Post_findById_def)

text \<open>
  Claim C8, as the code has it. When the id of a GET /post/:id request is a string that is
  an ObjectId (24 hexadecimal digits, or 12 characters of one byte each) and no stored post
  has that ObjectId, the handler answers with status 200 and the body \<^verbatim>\<open>null\<close>: it checks
  nothing and sends what the lookup gave.
\<close>

theorem get_post_id_absent:
  assumes "(length ident = 24 \<and> list_all (\<lambda>c. hex_digit c \<noteq> None) ident) \<or>
           (length ident = 12 \<and> list_all (\<lambda>c. (of_char c :: nat) < 128) ident)"
    and "list_all (\<lambda>p. castObjectId ident \<noteq> Some (pid p)) (posts s)"
  shows "get_post_id ident s = (Responded \<lparr>status = 200, cookies = [], body = Json JNull\<rparr>, s)"
proof -
  from assms(1) obtain i where i: "castObjectId ident = Some i"
    using castObjectId_Some_iff [of ident] by blast
  with assms(2) have "find (\<lambda>p. pid p = i) (posts s) = None"
    by (auto simp add: find_None_iff list_all_iff)
  with i show ?thesis
    by (simp add: get_post_id_def Post_findById_def ok_def)
qed

theorem get_post_id_absent_witness:
  "length ''00000000000000000000000a'' = 24
   \<and> list_all (\<lambda>c. hex_digit c \<noteq> None) ''00000000000000000000000a''
   \<and> list_all (\<lambda>p. castObjectId ''00000000000000000000000a'' \<noteq> Some (pid p))
       (posts \<lparr>users = [], posts = [\<lparr>pid = 3, title = ''t'', summary = ''s'', content = ''c'',
                 cover = ''uploads/a.png'', author = 0, createdAt = 1, updatedAt = 1\<rparr>],
               files = {}, next_id = 4\<rparr>)
   \<and> get_post_id ''00000000000000000000000a''
         \<lparr>users = [], posts = [\<lparr>pid = 3, title = ''t'', summary = ''s'', content = ''c'',
                 cover = ''uploads/a.png'', author = 0, createdAt = 1, updatedAt = 1\<rparr>],
               files = {}, next_id = 4\<rparr>
     = (Responded \<lparr>status = 200, cookies = [], body = Json JNull\<rparr>,
        \<lparr>users = [], posts = [\<lparr>pid = 3, title = ''t'', summary = ''s'', content = ''c'',
                 cover = ''uploads/a.png'', author = 0, createdAt = 1, updatedAt = 1\<rparr>],
               files = {}, next_id = 4\<rparr>)
   \<and> length ''abcdefghijkl'' = 12
   \<and> list_all (\<lambda>c. (of_char c :: nat) < 128) ''abcdefghijkl''
   \<and> list_all (\<lambda>p. castObjectId ''abcdefghijkl'' \<noteq> Some (pid p))
       (posts \<lparr>users = [], posts = [\<lparr>pid = 3, title = ''t'', summary = ''s'', content = ''c'',
                 cover = ''uploads/a.png'', author = 0, createdAt = 1, updatedAt = 1\<rparr>],
               files = {}, next_id = 4\<rparr>)
   \<and> get_post_id ''abcdefghijkl''
         \<lparr>users = [], posts = [\<lparr>pid = 3, title = ''t'', summary = ''s'', content = ''c'',
                 cover = ''uploads/a.png'', author = 0, createdAt = 1, updatedAt = 1\<rparr>],
               files = {}, next_id = 4\<rparr>
     = (Responded \<lparr>status = 200, cookies = [], body = Json JNull\<rparr>,
        \<lparr>users = [], posts = [\<lparr>pid = 3, title = ''t'', summary = ''s'', content = ''c'',
                 cover = ''uploads/a.png'', author = 0, createdAt = 1, updatedAt = 1\<rparr>],
               files = {}, next_id = 4\<rparr>)"
proof -
  let ?s = "\<lparr>users = [], posts = [\<lparr>pid = 3, title = ''t'', summary = ''s'', content = ''c'',
                 cover = ''uploads/a.png'', author = 0, createdAt = 1, updatedAt = 1\<rparr>],
               files = {}, next_id = 4 :: nat\<rparr>"
  have h1: "length ''00000000000000000000000a'' = 24"
    by simp
  have h2: "list_all (\<lambda>c. hex_digit c \<noteq> None) ''00000000000000000000000a''"
    by (simp add: hex_digit_def)
  have c: "castObjectId ''00000000000000000000000a'' = Some 10"
    by (simp add: castObjectId_def hex_digit_def)
  have h3: "list_all (\<lambda>p. castObjectId ''00000000000000000000000a'' \<noteq> Some (pid p)) (posts ?s)"
    unfolding c by simp
  have g1: "length ''abcdefghijkl'' = 12"
    by simp
  have g2: "list_all (\<lambda>c. (of_char c :: nat) < 128) ''abcdefghijkl''"
    by simp
  have c': "castObjectId ''abcdefghijkl'' = Some 30138990049255557934854335340"
    by (simp add: castObjectId_def)
  have g3: "list_all (\<lambda>p. castObjectId ''abcdefghijkl'' \<noteq> Some (pid p)) (posts ?s)"
    unfolding c' by simp
  from h1 h2 have a1: "(length ''00000000000000000000000a'' = 24 \<and>
        list_all (\<lambda>c. hex_digit c \<noteq> None) ''00000000000000000000000a'') \<or>
      (length ''00000000000000000000000a'' = 12 \<and>
        list_all (\<lambda>c. (of_char c :: nat) < 128) ''00000000000000000000000a'')"
    by blast
  from g1 g2 have a2: "(length ''abcdefghijkl'' = 24 \<and>
        list_all (\<lambda>c. hex_digit c \<noteq> None) ''abcdefghijkl'') \<or>
      (length ''abcdefghijkl'' = 12 \<and> list_all (\<lambda>c. (of_char c :: nat) < 128) ''abcdefghijkl'')"
    by blast
  from h1 h2 h3 get_post_id_absent [OF a1 h3] g1 g2 g3 get_post_id_absent [OF a2 g3]
  show ?thesis
    by (intro conjI)
qed

text \<open>
  The claim as stated promises the null body for every id that no stored post has. The id
  \<^verbatim>\<open>5\<close> is the id of no post, and the handler answers nothing: the lookup rejects with a
  cast error.
\<close>

theorem get_post_id_not_an_ObjectId:
  "list_all (\<lambda>p. castObjectId ''5'' \<noteq> Some (pid p))
       (posts \<lparr>users = [], posts = [\<lparr>pid = 3, title = ''t'', summary = ''s'', content = ''c'',
                 cover = ''uploads/a.png'', author = 0, createdAt = 1, updatedAt = 1\<rparr>],
               files = {}, next_id = 4\<rparr>)
   \<and> get_post_id ''5''
         \<lparr>users = [], posts = [\<lparr>pid = 3, title = ''t'', summary = ''s'', content = ''c'',
                 cover = ''uploads/a.png'', author = 0, createdAt = 1, updatedAt = 1\<rparr>],
               files = {}, next_id = 4\<rparr>
     = (Fault (CastError ''5''),
        \<lparr>users = [], posts = [\<lparr>pid = 3, title = ''t'', summary = ''s'', content = ''c'',
                 cover = ''uploads/a.png'', author = 0, createdAt = 1, updatedAt = 1\<rparr>],
               files = {}, next_id = 4\<rparr>)"
  by (simp add: get_post_id_def Post_findById_def castObjectId_def)

section \<open>Unique usernames\<close>

text \<open>
  Claim C6. The usernames of the stored users are pairwise different, and stay so whatever
  requests the application serves. Registering a username that is already stored fails in the
  store; the handler answers with status 400 and that error as the body, the stores are as
  before, and exactly one stored user has that username.
\<close>

theorem username_unique:
  assumes "distinct (map username (users s))"
  shows "distinct (map username (users (serve B rs s))) \<and>
         (uname \<in> set (map username (users s)) \<longrightarrow>
            (\<exists>e. User_create uname (hashSync B pw salt) s = Inl e \<and>
                 app B (Register salt uname pw) s =
                   (Responded \<lparr>status = 400, cookies = [], body = Raw e\<rparr>, s)) \<and>
            length (filter (\<lambda>u. username u = uname) (users (snd (app B (Register salt uname pw) s)))) = 1)"
proof (intro conjI impI)
  show "distinct (map username (users (serve B rs s)))"
    using assms by (rule serve_distinct)
next
  assume stored: "uname \<in> set (map username (users s))"
  then obtain e where e: "User_create uname (hashSync B pw salt) s = Inl e"
    using User_create_stored by blast
  then show "\<exists>e. User_create uname (hashSync B pw salt) s = Inl e \<and>
                 app B (Register salt uname pw) s =
                   (Responded \<lparr>status = 400, cookies = [], body = Raw e\<rparr>, s)"
    by (simp add: post_register_def)
  from e have "snd (app B (Register salt uname pw) s) = s"
    by (simp add: post_register_def)
  moreover from assms stored have "length (filter (\<lambda>u. username u = uname) (users s)) = 1"
    by (rule distinct_map_filter_one)
  ultimately show "length (filter (\<lambda>u. username u = uname)
      (users (snd (app B (Register salt uname pw) s)))) = 1"
    by simp
qed

theorem username_unique_witness:
  "distinct (map username (users
      \<lparr>users = [\<lparr>uid = 0, username = ''alice'', password = ''terces''\<rparr>], posts = [], files = {}, next_id = 1\<rparr>))
   \<and> distinct (map username (users (serve \<lparr>hashSync = (\<lambda>pw salt. rev pw), compareSync = (\<lambda>pw h. rev pw = h)\<rparr>
        [Register ''na'' ''bob'' ''pw'', Register ''cl'' ''alice'' ''other'']
        \<lparr>users = [\<lparr>uid = 0, username = ''alice'', password = ''terces''\<rparr>], posts = [], files = {}, next_id = 1\<rparr>)))
   \<and> ''alice'' \<in> set (map username (users
        \<lparr>users = [\<lparr>uid = 0, username = ''alice'', password = ''terces''\<rparr>], posts = [], files = {}, next_id = 1\<rparr>))
   \<and> app \<lparr>hashSync = (\<lambda>pw salt. rev pw), compareSync = (\<lambda>pw h. rev pw = h)\<rparr> (Register ''cl'' ''alice'' ''other'')
        \<lparr>users = [\<lparr>uid = 0, username = ''alice'', password = ''terces''\<rparr>], posts = [], files = {}, next_id = 1\<rparr>
      = (Responded \<lparr>status = 400, cookies = [], body = Raw (DuplicateKey ''username'' (Str ''alice''))\<rparr>,
         \<lparr>users = [\<lparr>uid = 0, username = ''alice'', password = ''terces''\<rparr>], posts = [], files = {}, next_id = 1\<rparr>)
   \<and> length (filter (\<lambda>u. username u = ''alice'')
        (users (snd (app \<lparr>hashSync = (\<lambda>pw salt. rev pw), compareSync = (\<lambda>pw h. rev pw = h)\<rparr>
           (Register ''cl'' ''alice'' ''other'')
           \<lparr>users = [\<lparr>uid = 0, username = ''alice'', password = ''terces''\<rparr>], posts = [], files = {}, next_id = 1\<rparr>)))) = 1"
proof -
  have h: "distinct (map username (users
      \<lparr>users = [\<lparr>uid = 0, username = ''alice'', password = ''terces''\<rparr>], posts = [], files = {}, next_id = 1\<rparr>))"
    by simp
  have dup: "User_create ''alice'' ''rehto''
      \<lparr>users = [\<lparr>uid = 0, username = ''alice'', password = ''terces''\<rparr>], posts = [], files = {}, next_id = 1\<rparr>
      = Inl (DuplicateKey ''username'' (Str ''alice''))"
    by (simp add: User_create_cases)
  show ?thesis
    using h dup
      username_unique [OF h, of "\<lparr>hashSync = (\<lambda>pw salt. rev pw), compareSync = (\<lambda>pw h. rev pw = h)\<rparr>"
        "[Register ''na'' ''bob'' ''pw'', Register ''cl'' ''alice'' ''other'']" "''alice''" "''other''" "''cl''"]
    by (simp add: post_register_def)
qed

section \<open>The undeclared secret\<close>

text \<open>
  The last piece of a name split at its dots, and the directory and the name of a path.
\<close>

lemma split_nonempty: "split c xs \<noteq> []"
  by (induction xs) (simp_all split: list.splits)

lemma split_no_separator: "c \<notin> set xs \<Longrightarrow> split c xs = [xs]"
  by (induction xs) auto

lemma split_two_pieces: "\<exists>p q qs. split c (base @ c # ext) = p # q # qs"
proof (induction base)
  case Nil
  obtain q qs where "split c ext = q # qs"
    using split_nonempty [of c ext] by (cases "split c ext") auto
  then show ?case by simp
next
  case (Cons x base)
  then obtain p q qs where "split c (base @ c # ext) = p # q # qs" by blast
  then show ?case by simp
qed

lemma last_split_append:
  "last (split c (base @ c # ext)) = last (split c ext)"
proof (induction base)
  case Nil
  then show ?case by (simp add: split_nonempty)
next
  case (Cons x base)
  obtain p q qs where two: "split c (base @ c # ext) = p # q # qs"
    using split_two_pieces by blast
  with Cons show ?case by simp
qed

lemma extension_after_last_dot:
  "CHR ''.'' \<notin> set ext \<Longrightarrow>
   newPath_of \<lparr>originalname = base @ ''.'' @ ext, path = p\<rparr> = p @ ''.'' @ ext"
  by (simp add: newPath_of_def last_split_append split_no_separator)

lemma basename_in_directory:
  assumes "CHR ''/'' \<notin> set n"
  shows "basename (d @ ''/'' @ n) = n"
proof -
  have "takeWhile (\<lambda>c. c \<noteq> CHR ''/'') (rev n @ CHR ''/'' # rev d) =
          rev n @ takeWhile (\<lambda>c. c \<noteq> CHR ''/'') (CHR ''/'' # rev d)"
    using assms by (intro takeWhile_append2) auto
  then show ?thesis by (simp add: basename_def)
qed

lemma dirname_in_directory:
  assumes "CHR ''/'' \<notin> set n"
  shows "dirname (d @ ''/'' @ n) = d"
proof -
  have "dropWhile (\<lambda>c. c \<noteq> CHR ''/'') (rev n @ CHR ''/'' # rev d) =
          dropWhile (\<lambda>c. c \<noteq> CHR ''/'') (CHR ''/'' # rev d)"
    using assms by (intro dropWhile_append2) auto
  then show ?thesis by (simp add: dirname_def)
qed

lemma busboy_basename_plain:
  assumes "CHR ''/'' \<notin> set n" and "CHR 0x5C \<notin> set n" and "n \<noteq> ''..''" and "n \<noteq> ''.''"
  shows "busboy_basename n = n"
proof -
  have tw: "takeWhile (\<lambda>c. c \<noteq> CHR ''/'' \<and> c \<noteq> CHR 0x5C) (rev n) = rev n"
    using assms(1,2) by (auto simp add: takeWhile_eq_all_conv)
  have "rev n \<noteq> ''..''" and "rev n \<noteq> ''.''"
    using assms(3,4) by (auto simp add: rev_swap [symmetric])
  then show ?thesis
    unfolding busboy_basename_def Let_def tw by simp
qed

text \<open>
  When the upload cannot be renamed, the handler throws what \<^verbatim>\<open>fs.renameSync\<close> threw.
\<close>

lemma create_rename_fails:
  "uploadMiddleware (Some up) s = (Some f, s0) \<Longrightarrow> renameSync (path f) (newPath_of f) s0 = Inl e \<Longrightarrow>
   route_post_post sec now (Some up) token t sm c s = (Fault e, s0)"
  by (simp add: route_post_post_def post_post_def Let_def)

lemma update_rename_fails:
  "uploadMiddleware upload s = (req_file, s0) \<Longrightarrow> rename_upload req_file s0 = Inl e \<Longrightarrow>
   route_put_post sec now upload token ident t sm c s = (Fault e, s0)"
  by (simp add: route_put_post_def put_post_def)

text \<open>
  Claim C2, as the code has it. \<^verbatim>\<open>secret\<close> has no binding. A login whose password
  matches and every profile request reach the read of \<^verbatim>\<open>secret\<close>, and the handler
  throws a ReferenceError there instead of answering. So does a create-post request whose
  upload is renamed, and an update-post request without an upload or with one that is
  renamed. The other requests to these two routes fault before that read: a create-post
  request without an upload on destructuring \<^verbatim>\<open>req.file\<close> (a TypeError), and a request
  whose upload cannot be renamed with the error of \<^verbatim>\<open>fs.renameSync\<close>. No create-post
  and no update-post request is answered. (The synchronous profile handler throws inside
  Express, whose own error handler then answers 500; the other three are asynchronous, and
  their rejection is handled by nobody.)
\<close>

theorem secret_never_defined:
  "secret = None
   \<and> (User_findOne uname s = Some userDoc \<and> compareSync B pw (password userDoc) \<longrightarrow>
        app B (Login now uname pw) s = (Fault (ReferenceError ''secret''), s))
   \<and> app B (Profile token) s = (Fault (ReferenceError ''secret''), s)
   \<and> app B (CreatePost now None token t sm c) s = (Fault (TypeError ''req.file''), s)
   \<and> (uploadMiddleware (Some up) s = (Some f, s0) \<and> renameSync (path f) (newPath_of f) s0 = Inr s1 \<longrightarrow>
        app B (CreatePost now (Some up) token t sm c) s = (Fault (ReferenceError ''secret''), s1))
   \<and> (uploadMiddleware (Some up') s = (Some f', s0') \<and> renameSync (path f') (newPath_of f') s0' = Inl e \<longrightarrow>
        app B (CreatePost now (Some up') token t sm c) s = (Fault e, s0'))
   \<and> (uploadMiddleware upload s = (req_file, s2) \<and> rename_upload req_file s2 = Inr (np, s3) \<longrightarrow>
        app B (UpdatePost now upload token ident t sm c) s = (Fault (ReferenceError ''secret''), s3))
   \<and> (uploadMiddleware upload' s = (req_file', s2') \<and> rename_upload req_file' s2' = Inl e' \<longrightarrow>
        app B (UpdatePost now upload' token ident t sm c) s = (Fault e', s2'))
   \<and> (\<exists>x. fst (app B (CreatePost now any_upload token t sm c) s) = Fault x)
   \<and> (\<exists>x. fst (app B (UpdatePost now any_upload token ident t sm c) s) = Fault x)"
proof (intro conjI impI)
  show "secret = None" by (simp add: secret_def)
  show "app B (Login now uname pw) s = (Fault (ReferenceError ''secret''), s)"
    if "User_findOne uname s = Some userDoc \<and> compareSync B pw (password userDoc)"
    using that by (simp add: post_login_def secret_def)
  show "app B (Profile token) s = (Fault (ReferenceError ''secret''), s)"
    by (simp add: get_profile_def secret_def)
  show "app B (CreatePost now None token t sm c) s = (Fault (TypeError ''req.file''), s)"
    by (simp add: route_post_post_def uploadMiddleware_def post_post_def)
  show "app B (CreatePost now (Some up) token t sm c) s = (Fault (ReferenceError ''secret''), s1)"
    if "uploadMiddleware (Some up) s = (Some f, s0) \<and> renameSync (path f) (newPath_of f) s0 = Inr s1"
    using that by (simp add: route_post_post_def post_post_def secret_def Let_def)
  show "app B (CreatePost now (Some up') token t sm c) s = (Fault e, s0')"
    if "uploadMiddleware (Some up') s = (Some f', s0') \<and> renameSync (path f') (newPath_of f') s0' = Inl e"
    using that by (simp add: route_post_post_def post_post_def Let_def)
  show "app B (UpdatePost now upload token ident t sm c) s = (Fault (ReferenceError ''secret''), s3)"
    if "uploadMiddleware upload s = (req_file, s2) \<and> rename_upload req_file s2 = Inr (np, s3)"
    using that by (simp add: route_put_post_def put_post_def secret_def)
  show "app B (UpdatePost now upload' token ident t sm c) s = (Fault e', s2')"
    if "uploadMiddleware upload' s = (req_file', s2') \<and> rename_upload req_file' s2' = Inl e'"
    using that by (simp add: route_put_post_def put_post_def)
  show "\<exists>x. fst (app B (CreatePost now any_upload token t sm c) s) = Fault x"
    by (auto simp add: route_post_post_def post_post_def secret_def Let_def
        split: prod.splits option.splits sum.splits)
  show "\<exists>x. fst (app B (UpdatePost now any_upload token ident t sm c) s) = Fault x"
    by (auto simp add: route_put_post_def put_post_def secret_def
        split: prod.splits option.splits sum.splits)
qed


theorem secret_never_defined_witness:
  "User_findOne ''alice'' \<lparr>users = [\<lparr>uid = 0, username = ''alice'', password = ''terces''\<rparr>], posts = [], files = {}, next_id = 1\<rparr> = Some \<lparr>uid = 0, username = ''alice'', password = ''terces''\<rparr>
   \<and> compareSync \<lparr>hashSync = (\<lambda>pw salt. rev pw), compareSync = (\<lambda>pw h. rev pw = h)\<rparr> ''secret'' (password \<lparr>uid = 0, username = ''alice'', password = ''terces''\<rparr>)
   \<and> uploadMiddleware (Some (''cat.png'', ''5f3a'')) \<lparr>users = [\<lparr>uid = 0, username = ''alice'', password = ''terces''\<rparr>], posts = [], files = {}, next_id = 1\<rparr> = (Some \<lparr>originalname = ''cat.png'', path = ''uploads/5f3a''\<rparr>, \<lparr>users = [\<lparr>uid = 0, username = ''alice'', password = ''terces''\<rparr>], posts = [], files = {''uploads/5f3a''}, next_id = 1\<rparr>)
   \<and> renameSync (path \<lparr>originalname = ''cat.png'', path = ''uploads/5f3a''\<rparr>) (newPath_of \<lparr>originalname = ''cat.png'', path = ''uploads/5f3a''\<rparr>) \<lparr>users = [\<lparr>uid = 0, username = ''alice'', password = ''terces''\<rparr>], posts = [], files = {''uploads/5f3a''}, next_id = 1\<rparr> = Inr \<lparr>users = [\<lparr>uid = 0, username = ''alice'', password = ''terces''\<rparr>], posts = [], files = {''uploads/5f3a.png''}, next_id = 1\<rparr>
   \<and> uploadMiddleware (Some (''a.'' @ replicate 300 (CHR ''x''), ''5f3a'')) \<lparr>users = [\<lparr>uid = 0, username = ''alice'', password = ''terces''\<rparr>], posts = [], files = {}, next_id = 1\<rparr> = (Some \<lparr>originalname = ''a.'' @ replicate 300 (CHR ''x''), path = ''uploads/5f3a''\<rparr>, \<lparr>users = [\<lparr>uid = 0, username = ''alice'', password = ''terces''\<rparr>], posts = [], files = {''uploads/5f3a''}, next_id = 1\<rparr>)
   \<and> renameSync (path \<lparr>originalname = ''a.'' @ replicate 300 (CHR ''x''), path = ''uploads/5f3a''\<rparr>) (newPath_of \<lparr>originalname = ''a.'' @ replicate 300 (CHR ''x''), path = ''uploads/5f3a''\<rparr>) \<lparr>users = [\<lparr>uid = 0, username = ''alice'', password = ''terces''\<rparr>], posts = [], files = {''uploads/5f3a''}, next_id = 1\<rparr> = Inl (ENAMETOOLONG (''uploads/5f3a'' @ ''.'' @ replicate 300 (CHR ''x'')))
   \<and> rename_upload (Some \<lparr>originalname = ''cat.png'', path = ''uploads/5f3a''\<rparr>) \<lparr>users = [\<lparr>uid = 0, username = ''alice'', password = ''terces''\<rparr>], posts = [], files = {''uploads/5f3a''}, next_id = 1\<rparr> = Inr (Some ''uploads/5f3a.png'', \<lparr>users = [\<lparr>uid = 0, username = ''alice'', password = ''terces''\<rparr>], posts = [], files = {''uploads/5f3a.png''}, next_id = 1\<rparr>)
   \<and> rename_upload (Some \<lparr>originalname = ''a.'' @ replicate 300 (CHR ''x''), path = ''uploads/5f3a''\<rparr>) \<lparr>users = [\<lparr>uid = 0, username = ''alice'', password = ''terces''\<rparr>], posts = [], files = {''uploads/5f3a''}, next_id = 1\<rparr> = Inl (ENAMETOOLONG (''uploads/5f3a'' @ ''.'' @ replicate 300 (CHR ''x'')))
   \<and> app \<lparr>hashSync = (\<lambda>pw salt. rev pw), compareSync = (\<lambda>pw h. rev pw = h)\<rparr> (Login 7 ''alice'' ''secret'') \<lparr>users = [\<lparr>uid = 0, username = ''alice'', password = ''terces''\<rparr>], posts = [], files = {}, next_id = 1\<rparr> = (Fault (ReferenceError ''secret''), \<lparr>users = [\<lparr>uid = 0, username = ''alice'', password = ''terces''\<rparr>], posts = [], files = {}, next_id = 1\<rparr>)
   \<and> app \<lparr>hashSync = (\<lambda>pw salt. rev pw), compareSync = (\<lambda>pw h. rev pw = h)\<rparr> (Profile (Some (JWT (Info ''alice'' 0 7) ''Secret-Service''))) \<lparr>users = [\<lparr>uid = 0, username = ''alice'', password = ''terces''\<rparr>], posts = [], files = {}, next_id = 1\<rparr> = (Fault (ReferenceError ''secret''), \<lparr>users = [\<lparr>uid = 0, username = ''alice'', password = ''terces''\<rparr>], posts = [], files = {}, next_id = 1\<rparr>)
   \<and> app \<lparr>hashSync = (\<lambda>pw salt. rev pw), compareSync = (\<lambda>pw h. rev pw = h)\<rparr> (CreatePost 7 None (Some (JWT (Info ''alice'' 0 7) ''Secret-Service'')) ''title'' ''summary'' ''content'') \<lparr>users = [\<lparr>uid = 0, username = ''alice'', password = ''terces''\<rparr>], posts = [], files = {}, next_id = 1\<rparr> = (Fault (TypeError ''req.file''), \<lparr>users = [\<lparr>uid = 0, username = ''alice'', password = ''terces''\<rparr>], posts = [], files = {}, next_id = 1\<rparr>)
   \<and> app \<lparr>hashSync = (\<lambda>pw salt. rev pw), compareSync = (\<lambda>pw h. rev pw = h)\<rparr> (CreatePost 7 (Some (''cat.png'', ''5f3a'')) (Some (JWT (Info ''alice'' 0 7) ''Secret-Service'')) ''title'' ''summary'' ''content'') \<lparr>users = [\<lparr>uid = 0, username = ''alice'', password = ''terces''\<rparr>], posts = [], files = {}, next_id = 1\<rparr> = (Fault (ReferenceError ''secret''), \<lparr>users = [\<lparr>uid = 0, username = ''alice'', password = ''terces''\<rparr>], posts = [], files = {''uploads/5f3a.png''}, next_id = 1\<rparr>)
   \<and> app \<lparr>hashSync = (\<lambda>pw salt. rev pw), compareSync = (\<lambda>pw h. rev pw = h)\<rparr> (CreatePost 7 (Some (''a.'' @ replicate 300 (CHR ''x''), ''5f3a'')) (Some (JWT (Info ''alice'' 0 7) ''Secret-Service'')) ''title'' ''summary'' ''content'') \<lparr>users = [\<lparr>uid = 0, username = ''alice'', password = ''terces''\<rparr>], posts = [], files = {}, next_id = 1\<rparr> = (Fault (ENAMETOOLONG (''uploads/5f3a'' @ ''.'' @ replicate 300 (CHR ''x''))), \<lparr>users = [\<lparr>uid = 0, username = ''alice'', password = ''terces''\<rparr>], posts = [], files = {''uploads/5f3a''}, next_id = 1\<rparr>)
   \<and> app \<lparr>hashSync = (\<lambda>pw salt. rev pw), compareSync = (\<lambda>pw h. rev pw = h)\<rparr> (UpdatePost 7 (Some (''cat.png'', ''5f3a'')) (Some (JWT (Info ''alice'' 0 7) ''Secret-Service'')) ''00000000000000000000000a'' ''title'' ''summary'' ''content'') \<lparr>users = [\<lparr>uid = 0, username = ''alice'', password = ''terces''\<rparr>], posts = [], files = {}, next_id = 1\<rparr> = (Fault (ReferenceError ''secret''), \<lparr>users = [\<lparr>uid = 0, username = ''alice'', password = ''terces''\<rparr>], posts = [], files = {''uploads/5f3a.png''}, next_id = 1\<rparr>)
   \<and> app \<lparr>hashSync = (\<lambda>pw salt. rev pw), compareSync = (\<lambda>pw h. rev pw = h)\<rparr> (UpdatePost 7 (Some (''a.'' @ replicate 300 (CHR ''x''), ''5f3a'')) (Some (JWT (Info ''alice'' 0 7) ''Secret-Service'')) ''00000000000000000000000a'' ''title'' ''summary'' ''content'') \<lparr>users = [\<lparr>uid = 0, username = ''alice'', password = ''terces''\<rparr>], posts = [], files = {}, next_id = 1\<rparr> = (Fault (ENAMETOOLONG (''uploads/5f3a'' @ ''.'' @ replicate 300 (CHR ''x''))), \<lparr>users = [\<lparr>uid = 0, username = ''alice'', password = ''terces''\<rparr>], posts = [], files = {''uploads/5f3a''}, next_id = 1\<rparr>)"
proof -
  have long_name: "busboy_basename (''a.'' @ replicate 300 (CHR ''x'')) = ''a.'' @ replicate 300 (CHR ''x'')"
  proof (rule busboy_basename_plain)
    show "CHR ''/'' \<notin> set (''a.'' @ replicate 300 (CHR ''x''))" by simp
    show "CHR 0x5C \<notin> set (''a.'' @ replicate 300 (CHR ''x''))" by simp
    show "''a.'' @ replicate 300 (CHR ''x'') \<noteq> ''..''" by simp
    show "''a.'' @ replicate 300 (CHR ''x'') \<noteq> ''.''" by simp
  qed
  have long_path: "newPath_of \<lparr>originalname = ''a.'' @ replicate 300 (CHR ''x''), path = ''uploads/5f3a''\<rparr> = ''uploads/5f3a'' @ ''.'' @ replicate 300 (CHR ''x'')"
    using extension_after_last_dot [of "replicate 300 (CHR ''x'')" "''a''" "''uploads/5f3a''"] by simp
  have long_base: "basename (''uploads/5f3a'' @ ''.'' @ replicate 300 (CHR ''x'')) = ''5f3a.'' @ replicate 300 (CHR ''x'')"
    using basename_in_directory [of "''5f3a.'' @ replicate 300 (CHR ''x'')" "''uploads''"] by simp
  have long_dir: "dirname (''uploads/5f3a'' @ ''.'' @ replicate 300 (CHR ''x'')) = ''uploads''"
    using dirname_in_directory [of "''5f3a.'' @ replicate 300 (CHR ''x'')" "''uploads''"] by simp
  have dir: "dirname ''uploads/5f3a'' = ''uploads''"
    by (simp add: dirname_def)
  have h1: "User_findOne ''alice'' \<lparr>users = [\<lparr>uid = 0, username = ''alice'', password = ''terces''\<rparr>], posts = [], files = {}, next_id = 1\<rparr> = Some \<lparr>uid = 0, username = ''alice'', password = ''terces''\<rparr>"
    by (simp add: User_findOne_def)
  have h2: "compareSync \<lparr>hashSync = (\<lambda>pw salt. rev pw), compareSync = (\<lambda>pw h. rev pw = h)\<rparr> ''secret'' (password \<lparr>uid = 0, username = ''alice'', password = ''terces''\<rparr>)"
    by simp
  have m_ok: "uploadMiddleware (Some (''cat.png'', ''5f3a'')) \<lparr>users = [\<lparr>uid = 0, username = ''alice'', password = ''terces''\<rparr>], posts = [], files = {}, next_id = 1\<rparr> = (Some \<lparr>originalname = ''cat.png'', path = ''uploads/5f3a''\<rparr>, \<lparr>users = [\<lparr>uid = 0, username = ''alice'', password = ''terces''\<rparr>], posts = [], files = {''uploads/5f3a''}, next_id = 1\<rparr>)"
    by (simp add: uploadMiddleware_def busboy_basename_def)
  have r_ok: "renameSync (path \<lparr>originalname = ''cat.png'', path = ''uploads/5f3a''\<rparr>) (newPath_of \<lparr>originalname = ''cat.png'', path = ''uploads/5f3a''\<rparr>) \<lparr>users = [\<lparr>uid = 0, username = ''alice'', password = ''terces''\<rparr>], posts = [], files = {''uploads/5f3a''}, next_id = 1\<rparr> = Inr \<lparr>users = [\<lparr>uid = 0, username = ''alice'', password = ''terces''\<rparr>], posts = [], files = {''uploads/5f3a.png''}, next_id = 1\<rparr>"
    by (simp add: renameSync_def newPath_of_def dirname_def basename_def NAME_MAX_def)
  have m_long: "uploadMiddleware (Some (''a.'' @ replicate 300 (CHR ''x''), ''5f3a'')) \<lparr>users = [\<lparr>uid = 0, username = ''alice'', password = ''terces''\<rparr>], posts = [], files = {}, next_id = 1\<rparr> = (Some \<lparr>originalname = ''a.'' @ replicate 300 (CHR ''x''), path = ''uploads/5f3a''\<rparr>, \<lparr>users = [\<lparr>uid = 0, username = ''alice'', password = ''terces''\<rparr>], posts = [], files = {''uploads/5f3a''}, next_id = 1\<rparr>)"
    by (simp add: uploadMiddleware_def long_name [simplified])
  have r_long: "renameSync (path \<lparr>originalname = ''a.'' @ replicate 300 (CHR ''x''), path = ''uploads/5f3a''\<rparr>) (newPath_of \<lparr>originalname = ''a.'' @ replicate 300 (CHR ''x''), path = ''uploads/5f3a''\<rparr>) \<lparr>users = [\<lparr>uid = 0, username = ''alice'', password = ''terces''\<rparr>], posts = [], files = {''uploads/5f3a''}, next_id = 1\<rparr> = Inl (ENAMETOOLONG (''uploads/5f3a'' @ ''.'' @ replicate 300 (CHR ''x'')))"
    unfolding long_path using long_base long_dir dir
    by (simp add: renameSync_def NAME_MAX_def)
  have u_ok: "rename_upload (Some \<lparr>originalname = ''cat.png'', path = ''uploads/5f3a''\<rparr>) \<lparr>users = [\<lparr>uid = 0, username = ''alice'', password = ''terces''\<rparr>], posts = [], files = {''uploads/5f3a''}, next_id = 1\<rparr> = Inr (Some ''uploads/5f3a.png'', \<lparr>users = [\<lparr>uid = 0, username = ''alice'', password = ''terces''\<rparr>], posts = [], files = {''uploads/5f3a.png''}, next_id = 1\<rparr>)"
    using r_ok by (simp add: newPath_of_def)
  have u_long: "rename_upload (Some \<lparr>originalname = ''a.'' @ replicate 300 (CHR ''x''), path = ''uploads/5f3a''\<rparr>) \<lparr>users = [\<lparr>uid = 0, username = ''alice'', password = ''terces''\<rparr>], posts = [], files = {''uploads/5f3a''}, next_id = 1\<rparr> = Inl (ENAMETOOLONG (''uploads/5f3a'' @ ''.'' @ replicate 300 (CHR ''x'')))"
    using r_long by simp
  note T = secret_never_defined [where B = "\<lparr>hashSync = (\<lambda>pw salt. rev pw), compareSync = (\<lambda>pw h. rev pw = h)\<rparr>" and s = "\<lparr>users = [\<lparr>uid = 0, username = ''alice'', password = ''terces''\<rparr>], posts = [], files = {}, next_id = 1\<rparr>" and uname = "''alice''" and pw = "''secret''"
      and userDoc = "\<lparr>uid = 0, username = ''alice'', password = ''terces''\<rparr>" and now = 7 and token = "Some (JWT (Info ''alice'' 0 7) ''Secret-Service'')"
      and t = "''title''" and sm = "''summary''" and c = "''content''" and ident = "''00000000000000000000000a''"
      and up = "(''cat.png'', ''5f3a'')" and f = "\<lparr>originalname = ''cat.png'', path = ''uploads/5f3a''\<rparr>" and ?s0.0 = "\<lparr>users = [\<lparr>uid = 0, username = ''alice'', password = ''terces''\<rparr>], posts = [], files = {''uploads/5f3a''}, next_id = 1\<rparr>" and ?s1.0 = "\<lparr>users = [\<lparr>uid = 0, username = ''alice'', password = ''terces''\<rparr>], posts = [], files = {''uploads/5f3a.png''}, next_id = 1\<rparr>"
      and up' = "(''a.'' @ replicate 300 (CHR ''x''), ''5f3a'')" and f' = "\<lparr>originalname = ''a.'' @ replicate 300 (CHR ''x''), path = ''uploads/5f3a''\<rparr>" and s0' = "\<lparr>users = [\<lparr>uid = 0, username = ''alice'', password = ''terces''\<rparr>], posts = [], files = {''uploads/5f3a''}, next_id = 1\<rparr>"
      and e = "ENAMETOOLONG (''uploads/5f3a'' @ ''.'' @ replicate 300 (CHR ''x''))"
      and upload = "Some (''cat.png'', ''5f3a'')" and req_file = "Some \<lparr>originalname = ''cat.png'', path = ''uploads/5f3a''\<rparr>" and ?s2.0 = "\<lparr>users = [\<lparr>uid = 0, username = ''alice'', password = ''terces''\<rparr>], posts = [], files = {''uploads/5f3a''}, next_id = 1\<rparr>"
      and np = "Some ''uploads/5f3a.png''" and ?s3.0 = "\<lparr>users = [\<lparr>uid = 0, username = ''alice'', password = ''terces''\<rparr>], posts = [], files = {''uploads/5f3a.png''}, next_id = 1\<rparr>"
      and upload' = "Some (''a.'' @ replicate 300 (CHR ''x''), ''5f3a'')" and req_file' = "Some \<lparr>originalname = ''a.'' @ replicate 300 (CHR ''x''), path = ''uploads/5f3a''\<rparr>" and s2' = "\<lparr>users = [\<lparr>uid = 0, username = ''alice'', password = ''terces''\<rparr>], posts = [], files = {''uploads/5f3a''}, next_id = 1\<rparr>"
      and e' = "ENAMETOOLONG (''uploads/5f3a'' @ ''.'' @ replicate 300 (CHR ''x''))"]
  from T h1 h2 have c_login: "app \<lparr>hashSync = (\<lambda>pw salt. rev pw), compareSync = (\<lambda>pw h. rev pw = h)\<rparr> (Login 7 ''alice'' ''secret'') \<lparr>users = [\<lparr>uid = 0, username = ''alice'', password = ''terces''\<rparr>], posts = [], files = {}, next_id = 1\<rparr> = (Fault (ReferenceError ''secret''), \<lparr>users = [\<lparr>uid = 0, username = ''alice'', password = ''terces''\<rparr>], posts = [], files = {}, next_id = 1\<rparr>)" by blast
  from T have c_profile: "app \<lparr>hashSync = (\<lambda>pw salt. rev pw), compareSync = (\<lambda>pw h. rev pw = h)\<rparr> (Profile (Some (JWT (Info ''alice'' 0 7) ''Secret-Service''))) \<lparr>users = [\<lparr>uid = 0, username = ''alice'', password = ''terces''\<rparr>], posts = [], files = {}, next_id = 1\<rparr> = (Fault (ReferenceError ''secret''), \<lparr>users = [\<lparr>uid = 0, username = ''alice'', password = ''terces''\<rparr>], posts = [], files = {}, next_id = 1\<rparr>)" by blast
  from T have c_nofile: "app \<lparr>hashSync = (\<lambda>pw salt. rev pw), compareSync = (\<lambda>pw h. rev pw = h)\<rparr> (CreatePost 7 None (Some (JWT (Info ''alice'' 0 7) ''Secret-Service'')) ''title'' ''summary'' ''content'') \<lparr>users = [\<lparr>uid = 0, username = ''alice'', password = ''terces''\<rparr>], posts = [], files = {}, next_id = 1\<rparr> = (Fault (TypeError ''req.file''), \<lparr>users = [\<lparr>uid = 0, username = ''alice'', password = ''terces''\<rparr>], posts = [], files = {}, next_id = 1\<rparr>)" by blast
  from T m_ok r_ok have c_create: "app \<lparr>hashSync = (\<lambda>pw salt. rev pw), compareSync = (\<lambda>pw h. rev pw = h)\<rparr> (CreatePost 7 (Some (''cat.png'', ''5f3a'')) (Some (JWT (Info ''alice'' 0 7) ''Secret-Service'')) ''title'' ''summary'' ''content'') \<lparr>users = [\<lparr>uid = 0, username = ''alice'', password = ''terces''\<rparr>], posts = [], files = {}, next_id = 1\<rparr> = (Fault (ReferenceError ''secret''), \<lparr>users = [\<lparr>uid = 0, username = ''alice'', password = ''terces''\<rparr>], posts = [], files = {''uploads/5f3a.png''}, next_id = 1\<rparr>)" by blast
  from T m_long r_long have c_create_long: "app \<lparr>hashSync = (\<lambda>pw salt. rev pw), compareSync = (\<lambda>pw h. rev pw = h)\<rparr> (CreatePost 7 (Some (''a.'' @ replicate 300 (CHR ''x''), ''5f3a'')) (Some (JWT (Info ''alice'' 0 7) ''Secret-Service'')) ''title'' ''summary'' ''content'') \<lparr>users = [\<lparr>uid = 0, username = ''alice'', password = ''terces''\<rparr>], posts = [], files = {}, next_id = 1\<rparr> = (Fault (ENAMETOOLONG (''uploads/5f3a'' @ ''.'' @ replicate 300 (CHR ''x''))), \<lparr>users = [\<lparr>uid = 0, username = ''alice'', password = ''terces''\<rparr>], posts = [], files = {''uploads/5f3a''}, next_id = 1\<rparr>)" by blast
  from T m_ok u_ok have c_update: "app \<lparr>hashSync = (\<lambda>pw salt. rev pw), compareSync = (\<lambda>pw h. rev pw = h)\<rparr> (UpdatePost 7 (Some (''cat.png'', ''5f3a'')) (Some (JWT (Info ''alice'' 0 7) ''Secret-Service'')) ''00000000000000000000000a'' ''title'' ''summary'' ''content'') \<lparr>users = [\<lparr>uid = 0, username = ''alice'', password = ''terces''\<rparr>], posts = [], files = {}, next_id = 1\<rparr> = (Fault (ReferenceError ''secret''), \<lparr>users = [\<lparr>uid = 0, username = ''alice'', password = ''terces''\<rparr>], posts = [], files = {''uploads/5f3a.png''}, next_id = 1\<rparr>)" by blast
  from T m_long u_long have c_update_long: "app \<lparr>hashSync = (\<lambda>pw salt. rev pw), compareSync = (\<lambda>pw h. rev pw = h)\<rparr> (UpdatePost 7 (Some (''a.'' @ replicate 300 (CHR ''x''), ''5f3a'')) (Some (JWT (Info ''alice'' 0 7) ''Secret-Service'')) ''00000000000000000000000a'' ''title'' ''summary'' ''content'') \<lparr>users = [\<lparr>uid = 0, username = ''alice'', password = ''terces''\<rparr>], posts = [], files = {}, next_id = 1\<rparr> = (Fault (ENAMETOOLONG (''uploads/5f3a'' @ ''.'' @ replicate 300 (CHR ''x''))), \<lparr>users = [\<lparr>uid = 0, username = ''alice'', password = ''terces''\<rparr>], posts = [], files = {''uploads/5f3a''}, next_id = 1\<rparr>)" by blast
  from h1 h2 m_ok r_ok m_long r_long u_ok u_long
    c_login c_profile c_nofile c_create c_create_long c_update c_update_long
  show ?thesis by (intro conjI)
qed

text \<open>
  The claim as stated promises a ReferenceError for every create-post and every update-post
  request. Without an upload, creating a post faults with a TypeError; with an upload whose
  original name ends in an extension of 300 characters, both routes fault with
  ENAMETOOLONG, the target name being longer than the file system takes.
\<close>

theorem create_post_without_file:
  "fst (app \<lparr>hashSync = (\<lambda>pw salt. rev pw), compareSync = (\<lambda>pw h. rev pw = h)\<rparr>
          (CreatePost 7 None None ''title'' ''summary'' ''content'')
          \<lparr>users = [], posts = [], files = {}, next_id = 0\<rparr>) = Fault (TypeError ''req.file'')
   \<and> fst (app \<lparr>hashSync = (\<lambda>pw salt. rev pw), compareSync = (\<lambda>pw h. rev pw = h)\<rparr>
          (CreatePost 7 None None ''title'' ''summary'' ''content'')
          \<lparr>users = [], posts = [], files = {}, next_id = 0\<rparr>) \<noteq> Fault (ReferenceError ''secret'')
   \<and> fst (app \<lparr>hashSync = (\<lambda>pw salt. rev pw), compareSync = (\<lambda>pw h. rev pw = h)\<rparr>
          (CreatePost 7 (Some (''a.'' @ replicate 300 (CHR ''x''), ''5f3a'')) None ''title'' ''summary'' ''content'')
          \<lparr>users = [], posts = [], files = {}, next_id = 0\<rparr>) = Fault (ENAMETOOLONG (''uploads/5f3a'' @ ''.'' @ replicate 300 (CHR ''x'')))
   \<and> fst (app \<lparr>hashSync = (\<lambda>pw salt. rev pw), compareSync = (\<lambda>pw h. rev pw = h)\<rparr>
          (UpdatePost 7 (Some (''a.'' @ replicate 300 (CHR ''x''), ''5f3a'')) None ''00000000000000000000000a'' ''title'' ''summary'' ''content'')
          \<lparr>users = [], posts = [], files = {}, next_id = 0\<rparr>) = Fault (ENAMETOOLONG (''uploads/5f3a'' @ ''.'' @ replicate 300 (CHR ''x'')))"
proof -
  have long_name: "busboy_basename (''a.'' @ replicate 300 (CHR ''x'')) = ''a.'' @ replicate 300 (CHR ''x'')"
  proof (rule busboy_basename_plain)
    show "CHR ''/'' \<notin> set (''a.'' @ replicate 300 (CHR ''x''))" by simp
    show "CHR 0x5C \<notin> set (''a.'' @ replicate 300 (CHR ''x''))" by simp
    show "''a.'' @ replicate 300 (CHR ''x'') \<noteq> ''..''" by simp
    show "''a.'' @ replicate 300 (CHR ''x'') \<noteq> ''.''" by simp
  qed
  have long_path: "newPath_of \<lparr>originalname = ''a.'' @ replicate 300 (CHR ''x''), path = ''uploads/5f3a''\<rparr> = ''uploads/5f3a'' @ ''.'' @ replicate 300 (CHR ''x'')"
    using extension_after_last_dot [of "replicate 300 (CHR ''x'')" "''a''" "''uploads/5f3a''"] by simp
  have long_base: "basename (''uploads/5f3a'' @ ''.'' @ replicate 300 (CHR ''x'')) = ''5f3a.'' @ replicate 300 (CHR ''x'')"
    using basename_in_directory [of "''5f3a.'' @ replicate 300 (CHR ''x'')" "''uploads''"] by simp
  have long_dir: "dirname (''uploads/5f3a'' @ ''.'' @ replicate 300 (CHR ''x'')) = ''uploads''"
    using dirname_in_directory [of "''5f3a.'' @ replicate 300 (CHR ''x'')" "''uploads''"] by simp
  have dir: "dirname ''uploads/5f3a'' = ''uploads''"
    by (simp add: dirname_def)
  have m_long: "uploadMiddleware (Some (''a.'' @ replicate 300 (CHR ''x''), ''5f3a'')) \<lparr>users = [], posts = [], files = {}, next_id = 0\<rparr> = (Some \<lparr>originalname = ''a.'' @ replicate 300 (CHR ''x''), path = ''uploads/5f3a''\<rparr>, \<lparr>users = [], posts = [], files = {''uploads/5f3a''}, next_id = 0\<rparr>)"
    by (simp add: uploadMiddleware_def long_name [simplified])
  have r_long: "renameSync (path \<lparr>originalname = ''a.'' @ replicate 300 (CHR ''x''), path = ''uploads/5f3a''\<rparr>) (newPath_of \<lparr>originalname = ''a.'' @ replicate 300 (CHR ''x''), path = ''uploads/5f3a''\<rparr>) \<lparr>users = [], posts = [], files = {''uploads/5f3a''}, next_id = 0\<rparr> = Inl (ENAMETOOLONG (''uploads/5f3a'' @ ''.'' @ replicate 300 (CHR ''x'')))"
    unfolding long_path using long_base long_dir dir
    by (simp add: renameSync_def NAME_MAX_def)
  have no_file: "fst (app \<lparr>hashSync = (\<lambda>pw salt. rev pw), compareSync = (\<lambda>pw h. rev pw = h)\<rparr>
          (CreatePost 7 None None ''title'' ''summary'' ''content'')
          \<lparr>users = [], posts = [], files = {}, next_id = 0\<rparr>) = Fault (TypeError ''req.file'')"
    by (simp add: route_post_post_def uploadMiddleware_def post_post_def)
  have create_long: "fst (app \<lparr>hashSync = (\<lambda>pw salt. rev pw), compareSync = (\<lambda>pw h. rev pw = h)\<rparr>
          (CreatePost 7 (Some (''a.'' @ replicate 300 (CHR ''x''), ''5f3a'')) None ''title'' ''summary'' ''content'')
          \<lparr>users = [], posts = [], files = {}, next_id = 0\<rparr>) = Fault (ENAMETOOLONG (''uploads/5f3a'' @ ''.'' @ replicate 300 (CHR ''x'')))"
    using create_rename_fails [OF m_long r_long] by simp
  have update_long: "fst (app \<lparr>hashSync = (\<lambda>pw salt. rev pw), compareSync = (\<lambda>pw h. rev pw = h)\<rparr>
          (UpdatePost 7 (Some (''a.'' @ replicate 300 (CHR ''x''), ''5f3a'')) None ''00000000000000000000000a'' ''title'' ''summary'' ''content'')
          \<lparr>users = [], posts = [], files = {}, next_id = 0\<rparr>) = Fault (ENAMETOOLONG (''uploads/5f3a'' @ ''.'' @ replicate 300 (CHR ''x'')))"
    using update_rename_fails [OF m_long, of "ENAMETOOLONG (''uploads/5f3a'' @ ''.'' @ replicate 300 (CHR ''x''))"] r_long
    by simp
  from no_file create_long update_long show ?thesis by simp
qed

section \<open>Listing posts\<close>
















section \<open>Handlers that never answer\<close>

text \<open>
  Claim C4 says that a login with matching credentials issues a token, sets the cookie and
  answers with the id and the username. The handler throws on reading \<^verbatim>\<open>secret\<close>: here
  for bob, whose password matches.
\<close>

theorem login_match_faults:
  "app \<lparr>hashSync = (\<lambda>pw salt. rev pw), compareSync = (\<lambda>pw h. rev pw = h)\<rparr>
     (Login 9 ''bob'' ''password'')
     \<lparr>users = [\<lparr>uid = 0, username = ''alice'', password = ''terces''\<rparr>,
               \<lparr>uid = 1, username = ''bob'', password = ''drowssap''\<rparr>],
       posts = [], files = {}, next_id = 2\<rparr>
   = (Fault (ReferenceError ''secret''),
      \<lparr>users = [\<lparr>uid = 0, username = ''alice'', password = ''terces''\<rparr>,
               \<lparr>uid = 1, username = ''bob'', password = ''drowssap''\<rparr>],
       posts = [], files = {}, next_id = 2\<rparr>)"
  by (simp add: post_login_def User_findOne_def secret_def)

text \<open>
  Claim C1 says that an update by a user who is not the author is answered with status 400
  and \<^verbatim>\<open>"you are not the author"\<close>. The handler throws before it looks at the post: here
  for bob's token on alice's post. The post is as before.
\<close>

theorem update_by_other_user_faults:
  "app \<lparr>hashSync = (\<lambda>pw salt. rev pw), compareSync = (\<lambda>pw h. rev pw = h)\<rparr>
     (UpdatePost 20 None (Some (JWT (Info ''bob'' 1 9) ''Secret-Service'')) ''00000000000000000000000a'' ''taken'' ''over'' ''by bob'')
     \<lparr>users = [\<lparr>uid = 0, username = ''alice'', password = ''terces''\<rparr>,
               \<lparr>uid = 1, username = ''bob'', password = ''drowssap''\<rparr>],
       posts = [\<lparr>pid = 10, title = ''hello'', summary = ''s'', content = ''c'', cover = ''uploads/a.png'',
                  author = 0, createdAt = 5, updatedAt = 5\<rparr>],
       files = {''uploads/a.png''}, next_id = 11\<rparr>
   = (Fault (ReferenceError ''secret''),
      \<lparr>users = [\<lparr>uid = 0, username = ''alice'', password = ''terces''\<rparr>,
               \<lparr>uid = 1, username = ''bob'', password = ''drowssap''\<rparr>],
       posts = [\<lparr>pid = 10, title = ''hello'', summary = ''s'', content = ''c'', cover = ''uploads/a.png'',
                  author = 0, createdAt = 5, updatedAt = 5\<rparr>],
       files = {''uploads/a.png''}, next_id = 11\<rparr>)"
  by (simp add: route_put_post_def uploadMiddleware_def put_post_def secret_def)

text \<open>
  Claim C7 says that an update by the author sets title, summary and content and keeps the
  cover when no file came with the request. The handler throws before it loads the post:
  here for alice's token on her own post, which keeps its old title, summary and content.
\<close>

theorem update_by_author_faults:
  "app \<lparr>hashSync = (\<lambda>pw salt. rev pw), compareSync = (\<lambda>pw h. rev pw = h)\<rparr>
     (UpdatePost 20 None (Some (JWT (Info ''alice'' 0 9) ''Secret-Service'')) ''00000000000000000000000a'' ''new title'' ''new summary'' ''new content'')
     \<lparr>users = [\<lparr>uid = 0, username = ''alice'', password = ''terces''\<rparr>],
       posts = [\<lparr>pid = 10, title = ''hello'', summary = ''s'', content = ''c'', cover = ''uploads/a.png'',
                  author = 0, createdAt = 5, updatedAt = 5\<rparr>],
       files = {''uploads/a.png''}, next_id = 11\<rparr>
   = (Fault (ReferenceError ''secret''),
      \<lparr>users = [\<lparr>uid = 0, username = ''alice'', password = ''terces''\<rparr>],
       posts = [\<lparr>pid = 10, title = ''hello'', summary = ''s'', content = ''c'', cover = ''uploads/a.png'',
                  author = 0, createdAt = 5, updatedAt = 5\<rparr>],
       files = {''uploads/a.png''}, next_id = 11\<rparr>)"
  by (simp add: route_put_post_def uploadMiddleware_def put_post_def secret_def)

text \<open>
  Claim C10 says that creating a post renames the upload, stores the post and answers with
  it. The upload is renamed, to its path with the extension of the original name appended;
  then the handler throws, no post is stored and nothing is answered.
\<close>

theorem create_post_faults:
  "app \<lparr>hashSync = (\<lambda>pw salt. rev pw), compareSync = (\<lambda>pw h. rev pw = h)\<rparr>
     (CreatePost 9 (Some (''cat.png'', ''5f3a'')) (Some (JWT (Info ''alice'' 0 9) ''Secret-Service''))
        ''title'' ''summary'' ''content'')
     \<lparr>users = [\<lparr>uid = 0, username = ''alice'', password = ''terces''\<rparr>], posts = [], files = {}, next_id = 1\<rparr>
   = (Fault (ReferenceError ''secret''),
      \<lparr>users = [\<lparr>uid = 0, username = ''alice'', password = ''terces''\<rparr>], posts = [],
        files = {''uploads/5f3a.png''}, next_id = 1\<rparr>)"
  by (simp add: route_post_post_def uploadMiddleware_def busboy_basename_def post_post_def renameSync_def
      newPath_of_def dirname_def basename_def NAME_MAX_def secret_def)

section \<open>The same handlers with the secret declared\<close>

text \<open>
  What the four handlers do once \<^verbatim>\<open>secret\<close> is bound to a key, that is, with line 16
  restored. These are facts about the handlers at \<open>Some key\<close>, not about the program,
  whose handlers run at \<open>secret\<close>.
\<close>

text \<open>
  Login with matching credentials: the token carries the username and the id of the stored
  user and verifies under the key, the cookie is set, the body is the id and the username.
\<close>

lemma login_declared:
  assumes "User_findOne uname s = Some userDoc"
    and "compareSync B pw (password userDoc)"
  shows "post_login (Some key) B now uname pw s =
           (Responded \<lparr>status = 200,
                        cookies = [(''token'', Some (JWT (Info uname (uid userDoc) now) key))],
                        body = Json (JObject [(''id'', JObjectId (uid userDoc)),
                                              (''username'', JString uname)])\<rparr>, s)"
    and "jwt_verify (Some (JWT (Info uname (uid userDoc) now) key)) key = Inr (Info uname (uid userDoc) now)"
    and "userDoc \<in> set (users s)" and "username userDoc = uname"
proof -
  from assms show "post_login (Some key) B now uname pw s =
           (Responded \<lparr>status = 200,
                        cookies = [(''token'', Some (JWT (Info uname (uid userDoc) now) key))],
                        body = Json (JObject [(''id'', JObjectId (uid userDoc)),
                                              (''username'', JString uname)])\<rparr>, s)"
    by (simp add: post_login_def jwt_sign_def)
  show "jwt_verify (Some (JWT (Info uname (uid userDoc) now) key)) key = Inr (Info uname (uid userDoc) now)"
    by simp
  from assms(1) have "find (\<lambda>u. username u = uname) (users s) = Some userDoc"
    by (simp add: User_findOne_def)
  then show "userDoc \<in> set (users s)" and "username userDoc = uname"
    by (auto simp add: find_Some_iff)
qed

text \<open>
  An update under the token of another user than the author, once the upload (if any) is
  renamed: status 400, and the posts are as before.
\<close>

lemma update_not_author_declared:
  assumes "rename_upload req_file s = Inr (np, s1)"
    and "jwt_verify token key = Inr info"
    and "Post_findById ident s = Inr (Some postDoc)"
    and "author postDoc \<noteq> info_id info"
  shows "put_post (Some key) now req_file token ident t sm c s =
           (Responded \<lparr>status = 400, cookies = [], body = Json (JString ''you are not the author'')\<rparr>, s1)"
    and "posts s1 = posts s"
proof -
  from assms(1) show same: "posts s1 = posts s"
    by (rule rename_upload_posts)
  then have "Post_findById ident s1 = Post_findById ident s"
    by (simp add: Post_findById_def split: option.splits)
  with assms(3) have "Post_findById ident s1 = Inr (Some postDoc)"
    by simp
  with assms(1,2,4) show "put_post (Some key) now req_file token ident t sm c s =
           (Responded \<lparr>status = 400, cookies = [], body = Json (JString ''you are not the author'')\<rparr>, s1)"
    by (simp add: put_post_def)
qed

text \<open>
  An update under the author's token: the answer is the post as it was loaded; the stored
  post has the new title, summary and content, and a new cover path only when a file came
  with the request.
\<close>

lemma find_map_pid:
  "(\<And>p. pid (f p) = pid p) \<Longrightarrow>
   find (\<lambda>p. pid p = i) (map f ps) = map_option f (find (\<lambda>p. pid p = i) ps)"
  by (induction ps) simp_all

lemma update_author_declared:
  assumes "rename_upload req_file s = Inr (np, s1)"
    and "jwt_verify token key = Inr info"
    and "Post_findById ident s = Inr (Some postDoc)"
    and "author postDoc = info_id info"
  shows "fst (put_post (Some key) now req_file token ident t sm c s) = ok (post_toJSON postDoc)"
    and "Post_findById ident (snd (put_post (Some key) now req_file token ident t sm c s)) =
           Inr (Some (postDoc\<lparr>title := t, summary := sm, content := c,
                        cover := (case np of None \<Rightarrow> cover postDoc | Some newPath \<Rightarrow> newPath),
                        updatedAt := now\<rparr>))"
    and "req_file = None \<Longrightarrow> np = None"
proof -
  from assms(1) have same: "posts s1 = posts s"
    by (rule rename_upload_posts)
  then have "Post_findById ident s1 = Post_findById ident s"
    by (simp add: Post_findById_def split: option.splits)
  with assms(3) have found: "Post_findById ident s1 = Inr (Some postDoc)"
    by simp
  from assms(1,2,4) found
  show "fst (put_post (Some key) now req_file token ident t sm c s) = ok (post_toJSON postDoc)"
    by (simp add: put_post_def)
  from assms(1,2,4) found
  have after: "snd (put_post (Some key) now req_file token ident t sm c s) =
          Post_update now (pid postDoc) t sm c (case np of Some newPath \<Rightarrow> newPath | None \<Rightarrow> cover postDoc) s1"
    by (simp add: put_post_def)
  from found obtain i where i: "castObjectId ident = Some i" "find (\<lambda>p. pid p = i) (posts s1) = Some postDoc"
    by (auto simp add: Post_findById_def split: option.splits)
  then have "pid postDoc = i"
    by (auto simp add: find_Some_iff)
  with i have "Post_findById ident (Post_update now (pid postDoc) t sm c cv s1) =
      Inr (Some (postDoc\<lparr>title := t, summary := sm, content := c, cover := cv, updatedAt := now\<rparr>))" for cv
    by (simp add: Post_findById_def Post_update_def find_map_pid)
  with after show "Post_findById ident (snd (put_post (Some key) now req_file token ident t sm c s)) =
           Inr (Some (postDoc\<lparr>title := t, summary := sm, content := c,
                        cover := (case np of None \<Rightarrow> cover postDoc | Some newPath \<Rightarrow> newPath),
                        updatedAt := now\<rparr>))"
    by (cases np) simp_all
  from assms(1) show "req_file = None \<Longrightarrow> np = None"
    by auto
qed

text \<open>
  Creating a post with an upload that is renamed, under a token that verifies: the post is
  stored with the new path as its cover and the token's id as its author, and is the answer.
\<close>

lemma create_declared:
  assumes "renameSync (path f) (newPath_of f) s = Inr s1"
    and "jwt_verify token key = Inr info"
  shows "post_post (Some key) now (Some f) token t sm c s =
           (ok (post_toJSON \<lparr>pid = next_id s1, title = t, summary = sm, content = c, cover = newPath_of f,
                             author = info_id info, createdAt = now, updatedAt = now\<rparr>),
            s1\<lparr>posts := posts s1 @ [\<lparr>pid = next_id s1, title = t, summary = sm, content = c,
                                      cover = newPath_of f, author = info_id info,
                                      createdAt = now, updatedAt = now\<rparr>],
               next_id := Suc (next_id s1)\<rparr>)"
  using assms by (simp add: post_post_def Post_create_def Let_def)

section \<open>Short usernames\<close>

text \<open>
  Claim C9 says that a user is created only for a username of at least 4 characters. The
  schema gives \<^verbatim>\<open>min: 4\<close> on a String path, where no such validator applies: the username
  \<^verbatim>\<open>abc\<close> is registered.
\<close>

theorem register_short_username:
  "app \<lparr>hashSync = (\<lambda>pw salt. rev pw), compareSync = (\<lambda>pw h. rev pw = h)\<rparr>
     (Register ''salt'' ''abc'' ''password'')
     \<lparr>users = [], posts = [], files = {}, next_id = 0\<rparr>
   = (Responded \<lparr>status = 200, cookies = [],
        body = Json (JObject [(''username'', JString ''abc''), (''password'', JString ''drowssap''),
                              (''_id'', JObjectId 0), (''__v'', JNumber 0)])\<rparr>,
      \<lparr>users = [\<lparr>uid = 0, username = ''abc'', password = ''drowssap''\<rparr>], posts = [], files = {},
        next_id = 1\<rparr>)"
  by (simp add: post_register_def User_create_cases ok_def user_toJSON_def)

end
